theory Spec2Isabelle
  imports Main
begin

text \<open>
  A model of the class-diagram extension: the parser that resolves the ancestors
  of a Java class (\<^verbatim>\<open>src/parser/JavaCodeParser.ts\<close>) and the generator of the
  diagram text (\<^verbatim>\<open>src/plantuml/PlantUMLGenerator.ts\<close>).  The functions keep the
  names of the source; line numbers refer to these two files.
\<close>

section \<open>JavaScript string primitives used by the sources\<close>

text \<open>
  Strings are \<^typ>\<open>string\<close> (lists of characters).  The functions below model the
  built-in methods of JavaScript strings and arrays that the parser and the
  generator call: \<^verbatim>\<open>startsWith\<close>, \<^verbatim>\<open>endsWith\<close>, \<^verbatim>\<open>includes\<close>, \<^verbatim>\<open>split\<close>, \<^verbatim>\<open>trim\<close>
  and \<^verbatim>\<open>join\<close>.  A value that may be \<^verbatim>\<open>undefined\<close> is an \<^typ>\<open>'a option\<close>.
\<close>

fun js_startsWith :: "string \<Rightarrow> string \<Rightarrow> bool" where
  "js_startsWith s [] = True"
| "js_startsWith [] (p # ps) = False"
| "js_startsWith (c # cs) (p # ps) = (c = p \<and> js_startsWith cs ps)"

definition js_endsWith :: "string \<Rightarrow> string \<Rightarrow> bool" where
  "js_endsWith s p = js_startsWith (rev s) (rev p)"

fun js_includes :: "string \<Rightarrow> string \<Rightarrow> bool" where
  "js_includes [] sub = (sub = [])"
| "js_includes (c # cs) sub = (js_startsWith (c # cs) sub \<or> js_includes cs sub)"

text \<open>
  \<^verbatim>\<open>s.split(sep)\<close> for a non-empty separator: the pieces between the successive
  left-most occurrences of \<^verbatim>\<open>sep\<close>; the result always has at least one piece.
  \<open>acc\<close> holds the current piece, reversed.
\<close>

function split_from :: "string \<Rightarrow> string \<Rightarrow> string \<Rightarrow> string list" where
  "split_from sep acc [] = [rev acc]"
| "split_from sep acc (c # cs) =
     (if sep \<noteq> [] \<and> js_startsWith (c # cs) sep
      then rev acc # split_from sep [] (drop (length sep - 1) cs)
      else split_from sep (c # acc) cs)"
  by pat_completeness auto
termination
  by (relation "measure (\<lambda>(sep, acc, s). length s)") auto

text \<open>\<^verbatim>\<open>s.split('')\<close> yields the characters of \<^verbatim>\<open>s\<close>, one string each.\<close>

definition js_split :: "string \<Rightarrow> string \<Rightarrow> string list" where
  "js_split s sep = (if sep = [] then map (\<lambda>c. [c]) s else split_from sep [] s)"

text \<open>
  The white space that \<^verbatim>\<open>trim\<close> and the regular-expression class \<^verbatim>\<open>\s\<close> strip,
  restricted to the one-byte characters: space, tab, line feed, vertical tab,
  form feed and carriage return.
\<close>

definition is_space :: "char \<Rightarrow> bool" where
  "is_space c = (c \<in> {CHR '' '', CHR 0x09, CHR 0x0A, CHR 0x0B, CHR 0x0C, CHR 0x0D})"

definition js_trim :: "string \<Rightarrow> string" where
  "js_trim s = rev (dropWhile is_space (rev (dropWhile is_space s)))"

fun js_join :: "string \<Rightarrow> string list \<Rightarrow> string" where
  "js_join sep [] = []"
| "js_join sep [x] = x"
| "js_join sep (x # y # ys) = x @ sep @ js_join sep (y # ys)"

text \<open>Truthiness of an optional string: defined and not empty.\<close>

fun truthy :: "string option \<Rightarrow> bool" where
  "truthy None = False"
| "truthy (Some s) = (s \<noteq> [])"

text \<open>\<^verbatim>\<open>x || ''\<close> for an optional string.\<close>

fun or_empty :: "string option \<Rightarrow> string" where
  "or_empty None = []"
| "or_empty (Some s) = s"


section \<open>The data model (\<^verbatim>\<open>JavaCodeParser.ts\<close>, lines 10--41)\<close>

record ParameterInfo =
  p_name :: string
  p_type :: string

record FieldInfo =
  f_name :: string
  f_type :: string
  f_modifiers :: "string list"
  f_annotations :: "string list"

record MethodInfo =
  m_name :: string
  returnType :: string
  parameters :: "ParameterInfo list"
  m_modifiers :: "string list"
  m_annotations :: "string list"

text \<open>
  \<^verbatim>\<open>ClassInfo\<close> refers to itself through \<^verbatim>\<open>parentClass\<close>, so the plain properties
  are a record and the descriptor is that record together with the optional
  parent descriptor.
\<close>

record ClassProps =
  name :: string
  c_fields :: "FieldInfo list"
  methods :: "MethodInfo list"
  modifiers :: "string list"
  annotations :: "string list"
  extends :: "string option"
  implements :: "string list option"
  packageName :: "string option"
  filePath :: "string option"

datatype ClassInfo = ClassInfo (props: ClassProps) (parentClass: "ClassInfo option")


section \<open>The generator (\<^verbatim>\<open>PlantUMLGenerator.ts\<close>)\<close>

definition getSimpleClassName :: "string \<Rightarrow> string" where
  "getSimpleClassName className =
     (if js_includes className ''.'' then last (js_split className ''.'') else className)"

definition getVisibilitySymbol :: "string list \<Rightarrow> string" where
  "getVisibilitySymbol mods =
     (if ''private'' \<in> set mods then ''-''
      else if ''protected'' \<in> set mods then ''#''
      else if ''public'' \<in> set mods then ''+''
      else ''~'')"

definition generateField :: "FieldInfo \<Rightarrow> string" where
  "generateField field =
     (let visibility = getVisibilitySymbol (f_modifiers field);
          isStatic = (if ''static'' \<in> set (f_modifiers field) then ''{static} '' else '''')
      in ''    '' @ visibility @ isStatic @ f_type field @ '' '' @ f_name field @ ''\<newline>'')"

definition generateMethod :: "MethodInfo \<Rightarrow> string" where
  "generateMethod method =
     (if m_name method = [] then ''''
      else
        let visibility = getVisibilitySymbol (m_modifiers method);
            isStatic = (if ''static'' \<in> set (m_modifiers method) then ''{static} '' else '''');
            params = js_join '', ''
              (map (\<lambda>p. js_trim (p_type p @ '' '' @ p_name p))
                 (filter (\<lambda>p. p_type p \<noteq> []) (parameters method)))
        in ''    '' @ visibility @ isStatic @ returnType method @ '' '' @ m_name method
             @ ''('' @ params @ '')\<newline>'')"

text \<open>
  \<^verbatim>\<open>classInfo.packageName?.startsWith('java.') || ...startsWith('javax.')\<close>: an absent
  package name makes the test false.
\<close>

definition isSystemPackage :: "string option \<Rightarrow> bool" where
  "isSystemPackage pkg =
     (case pkg of None \<Rightarrow> False
      | Some p \<Rightarrow> js_startsWith p ''java.'' \<or> js_startsWith p ''javax.'')"

definition generateClassDefinition :: "ClassProps \<Rightarrow> string" where
  "generateClassDefinition classInfo =
     (let isSystemClass = isSystemPackage (packageName classInfo);
          annos = (if \<not> isSystemClass
                   then concat (map (\<lambda>a. a @ ''\<newline>'') (annotations classInfo)) else '''');
          classType = (if ''abstract'' \<in> set (modifiers classInfo)
                       then ''abstract class'' else ''class'');
          ifaces = (case implements classInfo of
                      None \<Rightarrow> ''''
                    | Some is \<Rightarrow> if \<not> isSystemClass \<and> is \<noteq> []
                                then '' implements '' @ js_join '', '' is else '''');
          body = (if isSystemClass then ''    ..System Class..\<newline>''
                  else concat (map generateField (c_fields classInfo))
                     @ concat (map generateMethod (methods classInfo)))
      in annos @ classType @ '' '' @ name classInfo @ ifaces @ '' {\<newline>'' @ body
           @ ''}\<newline>\<newline>'')"

subsection \<open>The definitions pass\<close>

text \<open>
  The static set \<^verbatim>\<open>processedClasses\<close> is threaded through explicitly: every
  function takes the set as it stands and returns the text it appends together
  with the updated set.  \<open>interfaceDefinitions\<close> is the \<^verbatim>\<open>forEach\<close> over
  \<^verbatim>\<open>classInfo.implements\<close> (lines 70--77).
\<close>

fun interfaceDefinitions :: "string list \<Rightarrow> string \<times> string set \<Rightarrow> string \<times> string set" where
  "interfaceDefinitions [] acc = acc"
| "interfaceDefinitions (interfaceName # rest) (result, processed) =
     (if getSimpleClassName interfaceName \<notin> processed
      then interfaceDefinitions rest
             (result @ ''interface '' @ getSimpleClassName interfaceName @ '' {\<newline>}\<newline>\<newline>'',
              insert (getSimpleClassName interfaceName) processed)
      else interfaceDefinitions rest (result, processed))"

text \<open>The placeholder block of an ancestor that could not be resolved (lines 55--67).\<close>

definition placeholderDefinition :: "string \<Rightarrow> string" where
  "placeholderDefinition ext =
     (if js_includes ext ''java.applet.Applet'' \<or> js_endsWith ext ''.Applet''
      then ''class '' @ getSimpleClassName ext @ '' <<system>> {\<newline>}\<newline>\<newline>''
      else ''class '' @ getSimpleClassName ext @ '' {\<newline>}\<newline>\<newline>'')"

fun generateAllClassDefinitionsRecursive :: "ClassInfo \<Rightarrow> string set \<Rightarrow> string \<times> string set" where
  "generateAllClassDefinitionsRecursive (ClassInfo classInfo None) processed =
     (let (result1, processed1) =
            (if name classInfo \<notin> processed
             then (generateClassDefinition classInfo, insert (name classInfo) processed)
             else ('''', processed));
          (result2, processed2) =
            (case extends classInfo of
               None \<Rightarrow> (result1, processed1)
             | Some ext \<Rightarrow>
                 if ext \<noteq> [] \<and> getSimpleClassName ext \<notin> processed1
                 then (result1 @ placeholderDefinition ext,
                       insert (getSimpleClassName ext) processed1)
                 else (result1, processed1))
      in interfaceDefinitions (case implements classInfo of None \<Rightarrow> [] | Some is \<Rightarrow> is)
           (result2, processed2))"
| "generateAllClassDefinitionsRecursive (ClassInfo classInfo (Some parent)) processed =
     (let (result1, processed1) =
            (if name classInfo \<notin> processed
             then (generateClassDefinition classInfo, insert (name classInfo) processed)
             else ('''', processed));
          (resultP, processed2) = generateAllClassDefinitionsRecursive parent processed1
      in interfaceDefinitions (case implements classInfo of None \<Rightarrow> [] | Some is \<Rightarrow> is)
           (result1 @ resultP, processed2))"

subsection \<open>The relationships pass\<close>

definition ownRelationships :: "ClassProps \<Rightarrow> string" where
  "ownRelationships classInfo =
     (let result1 =
            (case extends classInfo of
               None \<Rightarrow> ''''
             | Some ext \<Rightarrow>
                 if ext = [] then ''''
                 else if js_startsWith ext ''java.'' \<or> js_startsWith ext ''javax.''
                 then getSimpleClassName ext @ '' <|.. '' @ name classInfo @ ''\<newline>''
                 else getSimpleClassName ext @ '' <|-- '' @ name classInfo @ ''\<newline>'')
      in result1 @
         concat (map (\<lambda>interfaceName.
                        getSimpleClassName interfaceName @ '' <|.. '' @ name classInfo @ ''\<newline>'')
                   (case implements classInfo of None \<Rightarrow> [] | Some is \<Rightarrow> is)))"

fun generateAllRelationshipsRecursive :: "ClassInfo \<Rightarrow> string" where
  "generateAllRelationshipsRecursive (ClassInfo classInfo None) = ownRelationships classInfo"
| "generateAllRelationshipsRecursive (ClassInfo classInfo (Some parent)) =
     ownRelationships classInfo @ generateAllRelationshipsRecursive parent"

subsection \<open>The entry point\<close>

text \<open>
  \<open>generateClassDiagram classInfo processedClasses\<close>: the second argument is the
  content of the static set when the call starts (whatever earlier calls left
  in it); the result is the diagram text and the content of the set when the
  call returns.  The first statement of the method clears the set.
\<close>

definition generateClassDiagram :: "ClassInfo \<Rightarrow> string set \<Rightarrow> string \<times> string set" where
  "generateClassDiagram classInfo processedClasses =
     (let cleared = {};
          (definitions, processed') = generateAllClassDefinitionsRecursive classInfo cleared;
          puml = ''@startuml\<newline>\<newline>'' @ definitions
                 @ generateAllRelationshipsRecursive classInfo @ ''\<newline>@enduml''
      in (puml, processed'))"


section \<open>Parsing the disassembly text (\<^verbatim>\<open>JavaCodeParser.ts\<close>, lines 222--391)\<close>

text \<open>
  Array helpers: \<open>at xs i\<close> is \<^verbatim>\<open>xs[i]\<close> (\<^verbatim>\<open>undefined\<close> out of range) and
  \<open>pop xs\<close> is \<^verbatim>\<open>xs.pop()\<close>: the removed last element (\<^verbatim>\<open>undefined\<close> for an empty
  array) and the array that is left.
\<close>

fun at :: "'a list \<Rightarrow> nat \<Rightarrow> 'a option" where
  "at [] i = None"
| "at (x # xs) 0 = Some x"
| "at (x # xs) (Suc i) = at xs i"

definition pop :: "'a list \<Rightarrow> 'a option \<times> 'a list" where
  "pop xs = (if xs = [] then (None, []) else (Some (last xs), butlast xs))"

definition parseParameters :: "string \<Rightarrow> ParameterInfo list" where
  "parseParameters paramString =
     (if js_trim paramString = [] then []
      else map (\<lambda>param. \<lparr>p_name = '''', p_type = js_trim param\<rparr>) (js_split paramString '',''))"

definition extractClassName :: "string \<Rightarrow> string" where
  "extractClassName line =
     (case filter (\<lambda>part. js_includes part ''.'') (js_split line '' '') of
        [] \<Rightarrow> ''''
      | part # _ \<Rightarrow> or_empty (fst (pop (js_split part ''.''))))"

text \<open>The descriptor that the \<^verbatim>\<open>catch\<close> block of \<^verbatim>\<open>parseJavapMethod\<close> returns.\<close>

definition emptyMethod :: MethodInfo where
  "emptyMethod = \<lparr>m_name = '''', returnType = '''', parameters = [],
                   m_modifiers = [], m_annotations = []\<rparr>"

text \<open>
  \<^verbatim>\<open>line.split('(')[1].split(')')[0]\<close>; \<open>None\<close> when \<^verbatim>\<open>line.split('(')[1]\<close> is
  \<^verbatim>\<open>undefined\<close>, where the source raises a \<^verbatim>\<open>TypeError\<close>.
\<close>

definition paramStringOf :: "string \<Rightarrow> string option" where
  "paramStringOf line =
     (case at (js_split line ''('') 1 of
        None \<Rightarrow> None
      | Some t \<Rightarrow> at (js_split t '')'') 0)"

text \<open>
  \<^verbatim>\<open>parseJavapMethod\<close>.  Every \<open>None\<close> below is a \<^verbatim>\<open>TypeError\<close> of the source
  (a method called on \<^verbatim>\<open>undefined\<close>), which its \<^verbatim>\<open>catch\<close> block turns into
  \<open>emptyMethod\<close>.
\<close>

definition parseJavapMethod :: "string \<Rightarrow> MethodInfo" where
  "parseJavapMethod line =
     (let isConstructor = js_includes line (extractClassName line @ ''('');
          (_, modifiers1) = pop (js_split (js_trim (or_empty (at (js_split line ''('') 0))) '' '')
      in if isConstructor then
           (let (classNameWithPackage, modifiers2) = pop modifiers1;
                className = or_empty (fst (pop (js_split (or_empty classNameWithPackage) ''.'')))
            in case paramStringOf line of
                 None \<Rightarrow> emptyMethod
               | Some paramString \<Rightarrow>
                   \<lparr>m_name = className, returnType = '''',
                    parameters = parseParameters paramString,
                    m_modifiers = modifiers2, m_annotations = []\<rparr>)
         else
           (let (popped, modifiers2) = pop modifiers1;
                returnType = or_empty popped
            in case at (js_split line returnType) 1 of
                 None \<Rightarrow> emptyMethod
               | Some afterType \<Rightarrow>
                   (let methodName = js_trim (or_empty (at (js_split (js_trim afterType) ''('') 0))
                    in case paramStringOf line of
                         None \<Rightarrow> emptyMethod
                       | Some paramString \<Rightarrow>
                           \<lparr>m_name = methodName, returnType = returnType,
                            parameters = parseParameters paramString,
                            m_modifiers = modifiers2, m_annotations = []\<rparr>)))"

subsection \<open>The three regular expressions\<close>

text \<open>
  The character classes \<^verbatim>\<open>\w\<close>, \<^verbatim>\<open>\d\<close>, \<^verbatim>\<open>[\w.$]\<close>, \<^verbatim>\<open>[\w.<>]\<close> and \<^verbatim>\<open>[\w<>]\<close>.
\<close>

definition is_digit :: "char \<Rightarrow> bool" where
  "is_digit c = (c \<in> set ''0123456789'')"

definition is_word :: "char \<Rightarrow> bool" where
  "is_word c = (c \<in> set ''abcdefghijklmnopqrstuvwxyzABCDEFGHIJKLMNOPQRSTUVWXYZ'' \<or> is_digit c
                \<or> c = CHR ''_'')"

definition is_qualified :: "char \<Rightarrow> bool" where
  "is_qualified c = (is_word c \<or> c = CHR ''.'' \<or> c = CHR ''$'')"

definition is_type_char :: "char \<Rightarrow> bool" where
  "is_type_char c = (is_word c \<or> c = CHR ''.'' \<or> c = CHR ''<'' \<or> c = CHR ''>'')"

definition is_generic_char :: "char \<Rightarrow> bool" where
  "is_generic_char c = (is_word c \<or> c = CHR ''<'' \<or> c = CHR ''>'')"

text \<open>
  \<open>run P s\<close> matches \<^verbatim>\<open>C+\<close> for a character class \<open>P\<close> at the start of \<open>s\<close>: the longest
  non-empty run and the rest.  Wherever the expressions of the source use \<^verbatim>\<open>C+\<close>,
  what follows cannot start with a character of \<open>C\<close>, so that only the longest
  run can lead to a match.
\<close>

definition run :: "(char \<Rightarrow> bool) \<Rightarrow> string \<Rightarrow> (string \<times> string) option" where
  "run P s = (if takeWhile P s = [] then None else Some (takeWhile P s, dropWhile P s))"

text \<open>\<^verbatim>\<open>/^\d+:/\<close>\<close>

definition offsetMatch :: "string \<Rightarrow> bool" where
  "offsetMatch line =
     (case run is_digit line of None \<Rightarrow> False | Some (_, rest) \<Rightarrow> js_startsWith rest '':'')"

text \<open>
  \<^verbatim>\<open>/(?:public |abstract |final )*class\s+([\w.$]+)\s+extends\s+([\w.$]+)/\<close>.
  \<open>classTail\<close> matches what follows the word \<^verbatim>\<open>class\<close> and yields the two groups.
  The optional modifiers in front only move the start of the match to the left,
  and they cannot contain the word \<^verbatim>\<open>class\<close>; so the left-most match is the one
  at the first occurrence of \<^verbatim>\<open>class\<close> that \<open>classTail\<close> accepts.
\<close>

definition classTail :: "string \<Rightarrow> (string \<times> string) option" where
  "classTail s =
     (case run is_space s of None \<Rightarrow> None | Some (_, s1) \<Rightarrow>
      case run is_qualified s1 of None \<Rightarrow> None | Some (g1, s2) \<Rightarrow>
      case run is_space s2 of None \<Rightarrow> None | Some (_, s3) \<Rightarrow>
      if \<not> js_startsWith s3 ''extends'' then None else
      case run is_space (drop 7 s3) of None \<Rightarrow> None | Some (_, s4) \<Rightarrow>
      case run is_qualified s4 of None \<Rightarrow> None | Some (g2, _) \<Rightarrow> Some (g1, g2))"

fun classMatch :: "string \<Rightarrow> (string \<times> string) option" where
  "classMatch [] = None"
| "classMatch (c # cs) =
     (case (if js_startsWith (c # cs) ''class'' then classTail (drop 4 cs) else None) of
        Some groups \<Rightarrow> Some groups
      | None \<Rightarrow> classMatch cs)"

text \<open>
  \<^verbatim>\<open>/(?:public |protected |private |static |final |volatile |transient )*\<close>
  \<^verbatim>\<open>(?:[\w.<>]+)\s+([\w<>]+)\s+([\w]+)/\<close>.
  \<open>fieldTail\<close> matches the part after the modifiers.  \<open>stripModifier\<close> removes one
  modifier keyword with its blank.  \<open>fieldMatchAt\<close> is a match attempt at one start
  position: as many modifiers as possible first, then one fewer, down to none.
  \<open>fieldMatch\<close> tries the start positions from left to right.
\<close>

definition fieldTail :: "string \<Rightarrow> (string \<times> string) option" where
  "fieldTail s =
     (case run is_type_char s of None \<Rightarrow> None | Some (_, s1) \<Rightarrow>
      case run is_space s1 of None \<Rightarrow> None | Some (_, s2) \<Rightarrow>
      case run is_generic_char s2 of None \<Rightarrow> None | Some (g1, s3) \<Rightarrow>
      case run is_space s3 of None \<Rightarrow> None | Some (_, s4) \<Rightarrow>
      case run is_word s4 of None \<Rightarrow> None | Some (g2, _) \<Rightarrow> Some (g1, g2))"

definition stripModifier :: "string \<Rightarrow> string option" where
  "stripModifier s =
     (case filter (js_startsWith s)
             [''public '', ''protected '', ''private '', ''static '', ''final '',
              ''volatile '', ''transient ''] of
        [] \<Rightarrow> None
      | m # _ \<Rightarrow> Some (drop (length m) s))"

fun fieldMatchAt :: "nat \<Rightarrow> string \<Rightarrow> (string \<times> string) option" where
  "fieldMatchAt 0 s = fieldTail s"
| "fieldMatchAt (Suc n) s =
     (case stripModifier s of
        None \<Rightarrow> fieldTail s
      | Some s' \<Rightarrow> (case fieldMatchAt n s' of Some groups \<Rightarrow> Some groups | None \<Rightarrow> fieldTail s))"

fun fieldMatch :: "string \<Rightarrow> (string \<times> string) option" where
  "fieldMatch [] = None"
| "fieldMatch (c # cs) =
     (case fieldMatchAt (length (c # cs)) (c # cs) of
        Some groups \<Rightarrow> Some groups
      | None \<Rightarrow> fieldMatch cs)"

definition emptyField :: FieldInfo where
  "emptyField = \<lparr>f_name = '''', f_type = '''', f_modifiers = [], f_annotations = []\<rparr>"

definition parseJavapField :: "string \<Rightarrow> FieldInfo" where
  "parseJavapField line =
     (case fieldMatch line of
        Some (g1, g2) \<Rightarrow>
          \<lparr>f_name = g2, f_type = g1,
           f_modifiers = filter (\<lambda>m. m \<noteq> [])
             (js_split (js_trim (or_empty (at (js_split line g1) 0))) '' ''),
           f_annotations = []\<rparr>
      | None \<Rightarrow> emptyField)"

subsection \<open>\<^verbatim>\<open>parseJavapOutput\<close>\<close>

text \<open>
  \<^verbatim>\<open>s.substring(0, s.lastIndexOf('.'))\<close>: the text before the last dot, and the
  empty string when there is no dot.
\<close>

definition beforeLastDot :: "string \<Rightarrow> string" where
  "beforeLastDot s = rev (drop 1 (dropWhile (\<lambda>c. c \<noteq> CHR ''.'') (rev s)))"

text \<open>
  One round of the \<^verbatim>\<open>forEach\<close> over the lines: the state is the descriptor under
  construction and the flag \<^verbatim>\<open>inCodeBlock\<close> (\<^verbatim>\<open>currentMethod\<close> is written and never
  read).
\<close>

definition javapLine :: "bool \<Rightarrow> ClassProps \<times> bool \<Rightarrow> string \<Rightarrow> ClassProps \<times> bool" where
  "javapLine isSystemClass st rawLine =
     (let (classInfo, inCodeBlock) = st; line = js_trim rawLine in
      if line = [] \<or> line = ''Code:'' then (classInfo, line = ''Code:'')
      else if inCodeBlock \<and> (offsetMatch line \<or> js_startsWith line ''/'') then st
      else if js_includes line ''class'' then
        (case classMatch line of
           Some (_, g2) \<Rightarrow>
             (classInfo\<lparr>modifiers := filter (\<lambda>m. m \<noteq> [])
                           (js_split (js_trim (or_empty (at (js_split line ''class'') 0))) '' ''),
                         extends := Some g2\<rparr>, inCodeBlock)
         | None \<Rightarrow> st)
      else if isSystemClass then st
      else if js_startsWith line ''public'' \<or> js_startsWith line ''protected''
              \<or> js_startsWith line ''private'' \<or> js_startsWith line ''static'' then
        (if js_includes line ''('' then
           (let method = parseJavapMethod line in
            if m_name method \<noteq> []
            then (classInfo\<lparr>methods := methods classInfo @ [method]\<rparr>, inCodeBlock) else st)
         else
           (let field = parseJavapField line in
            if f_name field \<noteq> []
            then (classInfo\<lparr>c_fields := c_fields classInfo @ [field]\<rparr>, inCodeBlock) else st))
      else st)"

definition parseJavapOutput :: "string \<Rightarrow> string \<Rightarrow> ClassProps" where
  "parseJavapOutput output fullClassName =
     (let isSystemClass = (js_startsWith fullClassName ''java.'' \<or> js_startsWith fullClassName ''javax.'');
          classInfo = \<lparr>name = or_empty (fst (pop (js_split fullClassName ''.''))),
                       c_fields = [], methods = [], modifiers = [], annotations = [],
                       extends = None, implements = None,
                       packageName = Some (beforeLastDot fullClassName), filePath = None\<rparr>
      in fst (foldl (javapLine isSystemClass) (classInfo, False) (js_split output ''\<newline>'')))"


section \<open>The collaborators\<close>

text \<open>
  What the parser obtains from outside the program is a parameter of the model:
  \<^item> \<open>structuredParse\<close>: the run of the embedded Java program of \<^verbatim>\<open>parseClass\<close>
    (lines 398--546) on a source text, that is the JSON object it prints, or the
    error that \<^verbatim>\<open>parseClass\<close> rethrows.  The program prints exactly the keys
    \<^verbatim>\<open>name\<close>, \<^verbatim>\<open>modifiers\<close>, \<^verbatim>\<open>annotations\<close>, \<^verbatim>\<open>extends\<close> (optional), \<^verbatim>\<open>implements\<close>,
    \<^verbatim>\<open>fields\<close> and \<^verbatim>\<open>methods\<close>;
  \<^item> \<open>execAsync\<close>: a shell command's standard output, or the error it is rejected
    with;
  \<^item> \<open>existsSync\<close>, \<open>readFileSync\<close>: the file system;
  \<^item> \<open>path_dirname\<close>, \<open>path_join\<close>: the functions of Node's \<^verbatim>\<open>path\<close> module.
  Console output is not modelled.
\<close>

datatype error = Error string

record ParsedClass =
  j_name :: string
  j_modifiers :: "string list"
  j_annotations :: "string list"
  j_extends :: "string option"
  j_implements :: "string list"
  j_fields :: "FieldInfo list"
  j_methods :: "MethodInfo list"

record Collaborators =
  structuredParse :: "string \<Rightarrow> error + ParsedClass"
  execAsync :: "string \<Rightarrow> error + string"
  existsSync :: "string \<Rightarrow> bool"
  readFileSync :: "string \<Rightarrow> error + string"
  path_dirname :: "string \<Rightarrow> string"
  path_join :: "string \<Rightarrow> string \<Rightarrow> string"


section \<open>Resolving the ancestors (\<^verbatim>\<open>JavaCodeParser.ts\<close>, lines 50--217 and 551--570)\<close>

definition parseClass :: "Collaborators \<Rightarrow> string \<Rightarrow> error + ClassInfo" where
  "parseClass w sourceCode =
     (case structuredParse w sourceCode of
        Inl e \<Rightarrow> Inl e
      | Inr j \<Rightarrow>
          Inr (ClassInfo
                 \<lparr>name = j_name j, c_fields = j_fields j, methods = j_methods j,
                  modifiers = j_modifiers j, annotations = j_annotations j,
                  extends = j_extends j, implements = Some (j_implements j),
                  packageName = None, filePath = None\<rparr>
                 None))"

definition findProjectClass ::
  "Collaborators \<Rightarrow> string \<Rightarrow> string option \<Rightarrow> string option \<Rightarrow> string option" where
  "findProjectClass w className pkg currentFilePath =
     (if \<not> truthy currentFilePath then None
      else
        let currentDir = path_dirname w (or_empty currentFilePath);
            parentFilePath = path_join w currentDir (className @ ''.java'')
        in if existsSync w parentFilePath
           then (case readFileSync w parentFilePath of Inr text \<Rightarrow> Some text | Inl e \<Rightarrow> None)
           else None)"

text \<open>\<^verbatim>\<open>execAsync(`javap -c ${className}`)\<close>, reduced to its standard output.\<close>

definition javap :: "Collaborators \<Rightarrow> string \<Rightarrow> error + string" where
  "javap w className = execAsync w (''javap -c '' @ className)"

definition commonPackages :: "string list" where
  "commonPackages =
     ['''', ''java.lang.'', ''java.util.'', ''java.io.'', ''java.applet.'', ''javax.swing.'',
      ''java.awt.'', ''java.net.'', ''java.sql.'', ''javax.servlet.'', ''java.math.'',
      ''java.security.'', ''java.text.'', ''java.time.'']"

text \<open>
  The functions of the fallback return the descriptor as the assignments of the
  source leave it, the class names handed to \<^verbatim>\<open>javap\<close> in the order of the calls,
  and the flag \<^verbatim>\<open>found\<close>.  \<open>tryCommonPackages\<close> is the \<^verbatim>\<open>for\<close> loop of lines
  128--155 over the packages still to try.
\<close>

fun tryCommonPackages ::
  "Collaborators \<Rightarrow> ClassInfo \<Rightarrow> string \<Rightarrow> string list \<Rightarrow> ClassInfo \<times> string list \<times> bool" where
  "tryCommonPackages w classInfo simpleClassName [] = (classInfo, [], False)"
| "tryCommonPackages w classInfo simpleClassName (pkg # pkgs) =
     (if truthy (extends (props classInfo))
         \<and> js_includes (or_empty (extends (props classInfo))) ''.'' \<and> pkg = ''''
      then tryCommonPackages w classInfo simpleClassName pkgs
      else
        let classNameToTry =
              (if pkg \<noteq> [] then pkg @ simpleClassName else or_empty (extends (props classInfo)))
        in case javap w classNameToTry of
             Inr stdout \<Rightarrow>
               (ClassInfo ((props classInfo)\<lparr>extends := Some classNameToTry\<rparr>)
                  (Some (ClassInfo (parseJavapOutput stdout classNameToTry) None)),
                [classNameToTry], True)
           | Inl e \<Rightarrow>
               (let (classInfo', tried, found) = tryCommonPackages w classInfo simpleClassName pkgs
                in (classInfo', classNameToTry # tried, found)))"

text \<open>
  The simple class name of lines 124--126:
  \<^verbatim>\<open>ext && ext.includes('.') ? ext.split('.').pop() || ext : ext || ''\<close>.
\<close>

definition simpleClassNameOf :: "string option \<Rightarrow> string" where
  "simpleClassNameOf ext =
     (if truthy ext \<and> js_includes (or_empty ext) ''.''
      then (let l = or_empty (fst (pop (js_split (or_empty ext) ''.'')))
            in if l \<noteq> [] then l else or_empty ext)
      else or_empty ext)"

text \<open>
  Lines 67--156, for a descriptor whose \<^verbatim>\<open>extends\<close> is set: the special case for
  \<^verbatim>\<open>Applet\<close>, the direct attempt on a name that contains a dot, and the loop.
\<close>

definition resolveSystemClass :: "Collaborators \<Rightarrow> ClassInfo \<Rightarrow> ClassInfo \<times> string list \<times> bool" where
  "resolveSystemClass w classInfo0 =
     (let ext0 = or_empty (extends (props classInfo0));
          fullClassName =
            (if truthy (packageName (props classInfo0))
             then or_empty (packageName (props classInfo0)) @ ''.'' @ ext0 else ext0);
          (classInfo1, tried1, found1) =
            (if ext0 = ''Applet'' then
               (case javap w ''java.applet.Applet'' of
                  Inr stdout \<Rightarrow>
                    (ClassInfo ((props classInfo0)\<lparr>extends := Some ''java.applet.Applet''\<rparr>)
                       (Some (ClassInfo (parseJavapOutput stdout ''java.applet.Applet'') None)),
                     [''java.applet.Applet''], True)
                | Inl e \<Rightarrow> (classInfo0, [''java.applet.Applet''], False))
             else (classInfo0, [], False));
          (classInfo2, tried2, found2) =
            (if js_includes fullClassName ''.'' then
               (case javap w fullClassName of
                  Inr stdout \<Rightarrow>
                    (ClassInfo (props classInfo1)
                       (Some (ClassInfo (parseJavapOutput stdout fullClassName) None)),
                     tried1 @ [fullClassName], True)
                | Inl e \<Rightarrow> (classInfo1, tried1 @ [fullClassName], found1))
             else (classInfo1, tried1, found1))
      in if \<not> found2 then
           (let simpleClassName = simpleClassNameOf (extends (props classInfo2));
                (classInfo3, tried3, found3) =
                  tryCommonPackages w classInfo2 simpleClassName commonPackages
            in (classInfo3, tried2 @ tried3, found3))
         else (classInfo2, tried2, found2))"

text \<open>
  The \<^verbatim>\<open>while\<close> loop of lines 168--181.  \<open>walkParents w currentClass parentClassName\<close>
  is the loop entered with these values of its two variables; it returns
  \<open>currentClass\<close> with the ancestors the loop attaches to it, and the class names
  handed to \<^verbatim>\<open>javap\<close>, one for each round.  The loop has no other exit than its
  condition and the \<^verbatim>\<open>break\<close> after a failed call, so the function is partial:
  \<open>None\<close> means that the loop never ends.
\<close>

partial_function (option) walkParents ::
  "Collaborators \<Rightarrow> ClassInfo \<Rightarrow> string \<Rightarrow> (ClassInfo \<times> string list) option" where
  "walkParents w currentClass parentClassName =
     (if parentClassName \<noteq> [] \<and> parentClassName \<noteq> ''java.lang.Object'' then
        (case javap w parentClassName of
           Inl e \<Rightarrow> Some (currentClass, [parentClassName])
         | Inr stdout \<Rightarrow>
             (let parentClass = ClassInfo (parseJavapOutput stdout parentClassName) None
              in Option.bind
                   (walkParents w parentClass (or_empty (extends (props parentClass))))
                   (\<lambda>(parentClass', calls).
                      Some (ClassInfo (props currentClass) (Some parentClass'),
                            parentClassName # calls))))
      else Some (currentClass, []))"

declare walkParents.simps [code]

text \<open>
  Lines 92--185: the fallback, then the walk.  When nothing was found the source
  throws, and the \<^verbatim>\<open>catch\<close> of line 183 ends the resolution.
\<close>

definition systemAncestors :: "Collaborators \<Rightarrow> ClassInfo \<Rightarrow> ClassInfo option" where
  "systemAncestors w classInfo =
     (case resolveSystemClass w classInfo of
        (classInfo', tried, found) \<Rightarrow>
          if \<not> found then Some classInfo'
          else
            (case parentClass classInfo' of
               None \<Rightarrow> Some classInfo'
             | Some parent \<Rightarrow>
                 if truthy (extends (props parent)) then
                   Option.bind (walkParents w parent (or_empty (extends (props parent))))
                     (\<lambda>(parent', calls). Some (ClassInfo (props classInfo') (Some parent')))
                 else Some classInfo'))"

text \<open>Lines 52--54: \<^verbatim>\<open>if (filePath) { classInfo.filePath = filePath; }\<close>.\<close>

definition withFilePath :: "ClassInfo \<Rightarrow> string option \<Rightarrow> ClassInfo" where
  "withFilePath classInfo filePathArg =
     (if truthy filePathArg
      then ClassInfo ((props classInfo)\<lparr>filePath := filePathArg\<rparr>) (parentClass classInfo)
      else classInfo)"

text \<open>
  \<^verbatim>\<open>JavaCodeParser.parse\<close>.  The result is \<open>None\<close> when the call never returns,
  \<open>Some (Inl e)\<close> when the promise is rejected with \<open>e\<close>, and \<open>Some (Inr c)\<close> when it
  is fulfilled with the descriptor \<open>c\<close>.  A rejected recursive call is caught by
  the \<^verbatim>\<open>catch\<close> of line 187.
\<close>

partial_function (option) parse ::
  "Collaborators \<Rightarrow> string \<Rightarrow> string option \<Rightarrow> (error + ClassInfo) option" where
  "parse w javaCode filePathArg =
     (case parseClass w javaCode of
        Inl e \<Rightarrow> Some (Inl e)
      | Inr parsed \<Rightarrow>
          (let classInfo = withFilePath parsed filePathArg;
               ext = extends (props classInfo)
           in if truthy ext then
                (let parentClassCode =
                       findProjectClass w (or_empty ext) (packageName (props classInfo)) filePathArg
                 in if truthy parentClassCode then
                      Option.bind
                        (parse w (or_empty parentClassCode)
                           (Some (path_join w (path_dirname w (or_empty filePathArg))
                                    (or_empty ext @ ''.java''))))
                        (\<lambda>r. case r of
                                Inl e \<Rightarrow> Some (Inr classInfo)
                              | Inr parentClassInfo \<Rightarrow>
                                  Some (Inr (ClassInfo (props classInfo) (Some parentClassInfo))))
                    else map_option Inr (systemAncestors w classInfo))
              else Some (Inr classInfo)))"

declare parse.simps [code]

text \<open>
  \<^verbatim>\<open>parseSystemClassWithParents\<close> (lines 551--570), the recursive helper with the
  depth limit; no function of the program calls it.  It returns \<open>classInfo\<close> with
  the ancestors attached and the class names handed to \<^verbatim>\<open>javap\<close>.
\<close>

function parseSystemClassWithParents ::
  "Collaborators \<Rightarrow> string \<Rightarrow> ClassInfo \<Rightarrow> nat \<Rightarrow> ClassInfo \<times> string list" where
  "parseSystemClassWithParents w fullClassName classInfo depth =
     (if depth > 10 then (classInfo, [])
      else
        (case javap w fullClassName of
           Inl e \<Rightarrow> (classInfo, [fullClassName])
         | Inr stdout \<Rightarrow>
             (let parsedClass = ClassInfo (parseJavapOutput stdout fullClassName) None;
                  ext = extends (props parsedClass)
              in if truthy ext \<and> ext \<noteq> Some ''java.lang.Object'' then
                   (let (parsedClass', calls) =
                          parseSystemClassWithParents w (or_empty ext) parsedClass (depth + 1)
                    in (ClassInfo (props classInfo) (Some parsedClass'), fullClassName # calls))
                 else (ClassInfo (props classInfo) (Some parsedClass), [fullClassName]))))"
  by pat_completeness auto
termination
  by (relation "measure (\<lambda>(w, fullClassName, classInfo, depth). 11 - depth)") auto


section \<open>Notions used to state the properties\<close>

subsection \<open>Blocks and edges of a diagram\<close>

text \<open>
  The definitions pass appends three kinds of blocks: the definition of a
  descriptor, the placeholder of an unresolved ancestor, and the definition of
  an interface.  \<open>blockName\<close> is the name under which a block is entered in
  \<^verbatim>\<open>processedClasses\<close>, which is the name written after the keyword in
  \<open>blockText\<close>.
\<close>

datatype block = ClassBlock ClassProps | PlaceholderBlock string | InterfaceBlock string

fun blockName :: "block \<Rightarrow> string" where
  "blockName (ClassBlock classInfo) = name classInfo"
| "blockName (PlaceholderBlock ext) = getSimpleClassName ext"
| "blockName (InterfaceBlock interfaceName) = getSimpleClassName interfaceName"

fun blockText :: "block \<Rightarrow> string" where
  "blockText (ClassBlock classInfo) = generateClassDefinition classInfo"
| "blockText (PlaceholderBlock ext) = placeholderDefinition ext"
| "blockText (InterfaceBlock interfaceName) =
     ''interface '' @ getSimpleClassName interfaceName @ '' {\<newline>}\<newline>\<newline>''"

text \<open>
  The definitions pass once more, collecting the blocks instead of their text.
\<close>

fun interfaceBlocks :: "string list \<Rightarrow> block list \<times> string set \<Rightarrow> block list \<times> string set" where
  "interfaceBlocks [] acc = acc"
| "interfaceBlocks (interfaceName # rest) (blocks, processed) =
     (if getSimpleClassName interfaceName \<notin> processed
      then interfaceBlocks rest
             (blocks @ [InterfaceBlock interfaceName],
              insert (getSimpleClassName interfaceName) processed)
      else interfaceBlocks rest (blocks, processed))"

fun definitionBlocks :: "ClassInfo \<Rightarrow> string set \<Rightarrow> block list \<times> string set" where
  "definitionBlocks (ClassInfo classInfo None) processed =
     (let (blocks1, processed1) =
            (if name classInfo \<notin> processed
             then ([ClassBlock classInfo], insert (name classInfo) processed)
             else ([], processed));
          (blocks2, processed2) =
            (case extends classInfo of
               None \<Rightarrow> (blocks1, processed1)
             | Some ext \<Rightarrow>
                 if ext \<noteq> [] \<and> getSimpleClassName ext \<notin> processed1
                 then (blocks1 @ [PlaceholderBlock ext],
                       insert (getSimpleClassName ext) processed1)
                 else (blocks1, processed1))
      in interfaceBlocks (case implements classInfo of None \<Rightarrow> [] | Some is \<Rightarrow> is)
           (blocks2, processed2))"
| "definitionBlocks (ClassInfo classInfo (Some parent)) processed =
     (let (blocks1, processed1) =
            (if name classInfo \<notin> processed
             then ([ClassBlock classInfo], insert (name classInfo) processed)
             else ([], processed));
          (blocksP, processed2) = definitionBlocks parent processed1
      in interfaceBlocks (case implements classInfo of None \<Rightarrow> [] | Some is \<Rightarrow> is)
           (blocks1 @ blocksP, processed2))"

text \<open>The descriptors of a chain, from the root to its last resolved ancestor.\<close>

fun ancestry :: "ClassInfo \<Rightarrow> ClassProps list" where
  "ancestry (ClassInfo classInfo None) = [classInfo]"
| "ancestry (ClassInfo classInfo (Some parent)) = classInfo # ancestry parent"

text \<open>
  The edges one descriptor contributes, as lines without the line feed.  A
  supertype is of library origin when its name starts with \<^verbatim>\<open>java.\<close> or
  \<^verbatim>\<open>javax.\<close>; \<^verbatim>\<open>extends\<close> counts as set when it is a non-empty string.
\<close>

definition libraryOrigin :: "string \<Rightarrow> bool" where
  "libraryOrigin ext = (js_startsWith ext ''java.'' \<or> js_startsWith ext ''javax.'')"

definition inheritanceEdges :: "ClassProps \<Rightarrow> string list" where
  "inheritanceEdges classInfo =
     (if truthy (extends classInfo)
      then [getSimpleClassName (or_empty (extends classInfo))
            @ (if libraryOrigin (or_empty (extends classInfo)) then '' <|.. '' else '' <|-- '')
            @ name classInfo]
      else [])"

definition interfaceEdges :: "ClassProps \<Rightarrow> string list" where
  "interfaceEdges classInfo =
     map (\<lambda>interfaceName. getSimpleClassName interfaceName @ '' <|.. '' @ name classInfo)
       (case implements classInfo of None \<Rightarrow> [] | Some is \<Rightarrow> is)"

text \<open>
  The content of \<^verbatim>\<open>processedClasses\<close> after a series of calls of
  \<^verbatim>\<open>generateClassDiagram\<close>, one for each descriptor of the list.
\<close>

fun afterCalls :: "ClassInfo list \<Rightarrow> string set \<Rightarrow> string set" where
  "afterCalls [] processed = processed"
| "afterCalls (classInfo # rest) processed =
     afterCalls rest (snd (generateClassDiagram classInfo processed))"

subsection \<open>Example descriptors\<close>

definition plainProps :: "string \<Rightarrow> ClassProps" where
  "plainProps n =
     \<lparr>name = n, c_fields = [], methods = [], modifiers = [''public''], annotations = [],
      extends = None, implements = Some [], packageName = None, filePath = None\<rparr>"

text \<open>\<^verbatim>\<open>A extends B\<close> with \<^verbatim>\<open>B\<close> found in the project.\<close>

definition classAextendsB :: ClassInfo where
  "classAextendsB =
     ClassInfo ((plainProps ''A'')\<lparr>extends := Some ''B''\<rparr>) (Some (ClassInfo (plainProps ''B'') None))"

text \<open>
  A class and its parent that implement the same interface, the parent's own
  ancestor being unresolved.
\<close>

definition diamond :: ClassInfo where
  "diamond =
     ClassInfo ((plainProps ''Child'')\<lparr>extends := Some ''Base'', implements := Some [''Runnable'']\<rparr>)
       (Some (ClassInfo ((plainProps ''Base'')\<lparr>extends := Some ''Missing'',
                           implements := Some [''java.lang.Runnable'', ''Base'']\<rparr>) None))"

definition sampleField :: FieldInfo where
  "sampleField = \<lparr>f_name = ''count'', f_type = ''int'',
                   f_modifiers = [''private'', ''static''], f_annotations = []\<rparr>"

definition sampleMethod :: MethodInfo where
  "sampleMethod = \<lparr>m_name = ''size'', returnType = ''int'',
                    parameters = [\<lparr>p_name = ''unit'', p_type = ''String''\<rparr>],
                    m_modifiers = [''protected''], m_annotations = []\<rparr>"

subsection \<open>The order of the fallback\<close>








subsection \<open>Finite ancestries\<close>

text \<open>
  \<open>disassemblyLinks w\<close> relates a class name to the supertype name that one round
  of the walk reads from its disassembly; \<open>projectLinks w\<close> relates a call of
  \<^verbatim>\<open>parse\<close> to the recursive call it makes for a sibling file.  The ancestries
  are finite when both relations are well-founded.
\<close>

definition disassemblyLinks :: "Collaborators \<Rightarrow> (string \<times> string) set" where
  "disassemblyLinks w =
     {(super, className).
        className \<noteq> [] \<and> className \<noteq> ''java.lang.Object'' \<and>
        (\<exists>stdout. javap w className = Inr stdout
                   \<and> super = or_empty (extends (parseJavapOutput stdout className)))}"

definition projectLinks ::
  "Collaborators \<Rightarrow> ((string \<times> string option) \<times> (string \<times> string option)) set" where
  "projectLinks w =
     {((parentCode, parentPath), (javaCode, filePathArg)).
        \<exists>parsed. parseClass w javaCode = Inr parsed
          \<and> truthy (extends (props parsed))
          \<and> findProjectClass w (or_empty (extends (props parsed))) None filePathArg
               = Some parentCode
          \<and> parentCode \<noteq> []
          \<and> parentPath = Some (path_join w (path_dirname w (or_empty filePathArg))
                                 (or_empty (extends (props parsed)) @ ''.java''))}"

subsection \<open>Example collaborators\<close>

definition notFound :: "error + string" where
  "notFound = Inl (Error ''class not found'')"

definition parsedClass :: "string \<Rightarrow> string option \<Rightarrow> ParsedClass" where
  "parsedClass n ext =
     \<lparr>j_name = n, j_modifiers = [''public''], j_annotations = [], j_extends = ext,
      j_implements = [], j_fields = [], j_methods = []\<rparr>"

text \<open>
  \<open>commandTable\<close> answers the commands of a table and rejects every other one.
\<close>

definition commandTable :: "(string \<times> string) list \<Rightarrow> string \<Rightarrow> error + string" where
  "commandTable table command =
     (case map_of table command of Some stdout \<Rightarrow> Inr stdout | None \<Rightarrow> notFound)"

text \<open>
  A project without sibling files, and a class path on which \<^verbatim>\<open>javap\<close> finds
  \<^verbatim>\<open>java.lang.Exception\<close> and fails on every other name, also on the supertype
  \<^verbatim>\<open>java.lang.Throwable\<close>.
\<close>

definition libraryWorld :: Collaborators where
  "libraryWorld =
     \<lparr>structuredParse = (\<lambda>code. Inr (parsedClass ''Mine'' (Some ''Exception''))),
      execAsync = commandTable
        [(''javap -c java.lang.Exception'',
          ''public class java.lang.Exception extends java.lang.Throwable {\<newline>  public java.lang.Exception();\<newline>}'')],
      existsSync = (\<lambda>p. False),
      readFileSync = (\<lambda>p. Inl (Error ''ENOENT'')),
      path_dirname = (\<lambda>p. ''/project''),
      path_join = (\<lambda>d f. d @ ''/'' @ f)\<rparr>"

text \<open>
  The file \<^verbatim>\<open>/d/A.java\<close> declares \<^verbatim>\<open>class A extends other.A\<close>; the structured parse
  reports the supertype by its simple name \<^verbatim>\<open>A\<close>.
\<close>

definition selfCode :: string where
  "selfCode = ''package d; public class A extends other.A { }''"

definition selfWorld :: Collaborators where
  "selfWorld =
     \<lparr>structuredParse = (\<lambda>code. Inr (parsedClass ''A'' (Some ''A''))),
      execAsync = (\<lambda>command. notFound),
      existsSync = (\<lambda>p. p = ''/d/A.java''),
      readFileSync = (\<lambda>p. if p = ''/d/A.java'' then Inr selfCode else Inl (Error ''ENOENT'')),
      path_dirname = (\<lambda>p. ''/d''),
      path_join = (\<lambda>d f. d @ ''/'' @ f)\<rparr>"

text \<open>
  A class path with the classes \<^verbatim>\<open>C01\<close> to \<^verbatim>\<open>C13\<close> of the unnamed package, each
  extending the next and the last one extending \<^verbatim>\<open>java.lang.Object\<close> (which
  \<^verbatim>\<open>javap\<close> does not print).
\<close>

definition deepTable :: "(string \<times> string) list" where
  "deepTable =
     [(''javap -c C01'', ''public class C01 extends C02 {\<newline>}''),
      (''javap -c C02'', ''public class C02 extends C03 {\<newline>}''),
      (''javap -c C03'', ''public class C03 extends C04 {\<newline>}''),
      (''javap -c C04'', ''public class C04 extends C05 {\<newline>}''),
      (''javap -c C05'', ''public class C05 extends C06 {\<newline>}''),
      (''javap -c C06'', ''public class C06 extends C07 {\<newline>}''),
      (''javap -c C07'', ''public class C07 extends C08 {\<newline>}''),
      (''javap -c C08'', ''public class C08 extends C09 {\<newline>}''),
      (''javap -c C09'', ''public class C09 extends C10 {\<newline>}''),
      (''javap -c C10'', ''public class C10 extends C11 {\<newline>}''),
      (''javap -c C11'', ''public class C11 extends C12 {\<newline>}''),
      (''javap -c C12'', ''public class C12 extends C13 {\<newline>}''),
      (''javap -c C13'', ''public class C13 {\<newline>}'')]"

definition deepWorld :: Collaborators where
  "deepWorld =
     \<lparr>structuredParse = (\<lambda>code. Inr (parsedClass ''Leaf'' (Some ''C01''))),
      execAsync = commandTable deepTable,
      existsSync = (\<lambda>p. False),
      readFileSync = (\<lambda>p. Inl (Error ''ENOENT'')),
      path_dirname = (\<lambda>p. ''/project''),
      path_join = (\<lambda>d f. d @ ''/'' @ f)\<rparr>"

text \<open>A disassembly that names the class itself as its supertype.\<close>

definition loopWorld :: Collaborators where
  "loopWorld =
     \<lparr>structuredParse = (\<lambda>code. Inr (parsedClass ''Leaf'' (Some ''p.Loop''))),
      execAsync = commandTable
        [(''javap -c p.Loop'', ''public class p.Loop extends p.Loop {\<newline>}'')],
      existsSync = (\<lambda>p. False),
      readFileSync = (\<lambda>p. Inl (Error ''ENOENT'')),
      path_dirname = (\<lambda>p. ''/project''),
      path_join = (\<lambda>d f. d @ ''/'' @ f)\<rparr>"

text \<open>The descriptors that \<^verbatim>\<open>parseClass\<close> returns in these examples.\<close>

definition mine :: ClassInfo where
  "mine = ClassInfo ((plainProps ''Mine'')\<lparr>extends := Some ''Exception''\<rparr>) None"

definition selfRoot :: ClassInfo where
  "selfRoot = ClassInfo ((plainProps ''A'')\<lparr>extends := Some ''A''\<rparr>) None"

text \<open>
  The descriptor of \<^verbatim>\<open>C01\<close>, with which the walk starts in \<open>deepWorld\<close>, and the
  one of \<^verbatim>\<open>java.lang.Exception\<close> in \<open>libraryWorld\<close>.
\<close>

definition deepStart :: ClassInfo where
  "deepStart =
     ClassInfo (parseJavapOutput ''public class C01 extends C02 {\<newline>}'' ''C01'') None"

definition exceptionProps :: ClassProps where
  "exceptionProps =
     \<lparr>name = ''Exception'', c_fields = [], methods = [], modifiers = [''public''],
      annotations = [], extends = Some ''java.lang.Throwable'', implements = None,
      packageName = Some ''java.lang'', filePath = None\<rparr>"

text \<open>
  The disassembly of a class \<^verbatim>\<open>com.acme.Base\<close> with one constructor.
\<close>

definition baseDisassembly :: string where
  "baseDisassembly =
     ''Compiled from \"Base.java\"\<newline>public class com.acme.Base extends com.acme.Root {\<newline>  public com.acme.Base(java.lang.String, int);\<newline>}''"

text \<open>
  A class path on which \<^verbatim>\<open>javap\<close> finds \<^verbatim>\<open>java.applet.Applet\<close> and
  \<^verbatim>\<open>javax.swing.JFrame\<close>, and two sources: one class extends \<^verbatim>\<open>Applet\<close>, the other
  one a supertype that the structured parse reports with its package.
\<close>

definition guiWorld :: Collaborators where
  "guiWorld =
     \<lparr>structuredParse =
        (\<lambda>code. if code = ''class Game extends Applet {}''
                then Inr (parsedClass ''Game'' (Some ''Applet''))
                else Inr (parsedClass ''Window'' (Some ''javax.swing.JFrame''))),
      execAsync = commandTable
        [(''javap -c java.applet.Applet'',
          ''public class java.applet.Applet extends java.awt.Panel {\<newline>}''),
         (''javap -c javax.swing.JFrame'',
          ''public class javax.swing.JFrame extends java.awt.Frame {\<newline>}'')],
      existsSync = (\<lambda>p. False),
      readFileSync = (\<lambda>p. Inl (Error ''ENOENT'')),
      path_dirname = (\<lambda>p. ''/project''),
      path_join = (\<lambda>d f. d @ ''/'' @ f)\<rparr>"


section \<open>Properties of the generator\<close>

subsection \<open>Visibility symbols\<close>

lemma generateField_shape:
  "generateField field =
     ''    '' @ getVisibilitySymbol (f_modifiers field)
       @ (if ''static'' \<in> set (f_modifiers field) then ''{static} '' else '''')
       @ f_type field @ '' '' @ f_name field @ ''\<newline>''"
  by (simp add: generateField_def)

lemma generateMethod_shape:
  assumes "m_name method \<noteq> []"
  shows "\<exists>rest. generateMethod method =
           ''    '' @ getVisibilitySymbol (m_modifiers method) @ rest"
  using assms by (simp add: generateMethod_def Let_def)

text \<open>
  C9.  The visibility symbol is \<^verbatim>\<open>-\<close> when the modifiers contain \<^verbatim>\<open>private\<close>,
  else \<^verbatim>\<open>#\<close> when they contain \<^verbatim>\<open>protected\<close>, else \<^verbatim>\<open>+\<close> when they contain
  \<^verbatim>\<open>public\<close>, else \<^verbatim>\<open>~\<close>; and it is this symbol, computed from the member's own
  modifiers, that follows the indentation of the line of a field and of the line
  of a method (a method with an empty name has no line).
\<close>

theorem visibility_symbol_mapping:
  "(''private'' \<in> set mods \<longrightarrow> getVisibilitySymbol mods = ''-'')
   \<and> (''private'' \<notin> set mods \<and> ''protected'' \<in> set mods \<longrightarrow> getVisibilitySymbol mods = ''#'')
   \<and> (''private'' \<notin> set mods \<and> ''protected'' \<notin> set mods \<and> ''public'' \<in> set mods
        \<longrightarrow> getVisibilitySymbol mods = ''+'')
   \<and> (''private'' \<notin> set mods \<and> ''protected'' \<notin> set mods \<and> ''public'' \<notin> set mods
        \<longrightarrow> getVisibilitySymbol mods = ''~'')
   \<and> (\<exists>rest. generateField field =
          ''    '' @ getVisibilitySymbol (f_modifiers field) @ rest)
   \<and> (m_name method \<noteq> [] \<longrightarrow>
        (\<exists>rest. generateMethod method =
           ''    '' @ getVisibilitySymbol (m_modifiers method) @ rest))"
proof -
  have "\<exists>rest. generateField field =
          ''    '' @ getVisibilitySymbol (f_modifiers field) @ rest"
    by (simp add: generateField_shape)
  moreover have "m_name method \<noteq> [] \<longrightarrow>
        (\<exists>rest. generateMethod method =
           ''    '' @ getVisibilitySymbol (m_modifiers method) @ rest)"
    using generateMethod_shape by blast
  ultimately show ?thesis
    by (simp add: getVisibilitySymbol_def)
qed

theorem visibility_symbol_mapping_witness:
  "getVisibilitySymbol [''private'', ''static''] = ''-''
   \<and> getVisibilitySymbol [''protected''] = ''#''
   \<and> getVisibilitySymbol [''static'', ''public''] = ''+''
   \<and> getVisibilitySymbol [''final''] = ''~''
   \<and> generateField sampleField = ''    -{static} int count\<newline>''
   \<and> generateMethod sampleMethod = ''    #int size(String unit)\<newline>''"
proof -
  have a: "getVisibilitySymbol [''private'', ''static''] = ''-''"
    using visibility_symbol_mapping [of "[''private'', ''static'']" sampleField sampleMethod]
    by simp
  have b: "getVisibilitySymbol [''protected''] = ''#''"
    using visibility_symbol_mapping [of "[''protected'']" sampleField sampleMethod]
    by simp
  have c: "getVisibilitySymbol [''static'', ''public''] = ''+''"
    using visibility_symbol_mapping [of "[''static'', ''public'']" sampleField sampleMethod]
    by simp
  have d: "getVisibilitySymbol [''final''] = ''~''"
    using visibility_symbol_mapping [of "[''final'']" sampleField sampleMethod]
    by simp
  have e: "generateField sampleField = ''    -{static} int count\<newline>''"
    by (simp add: generateField_def sampleField_def a)
  have f: "generateMethod sampleMethod = ''    #int size(String unit)\<newline>''"
    by (simp add: generateMethod_def sampleMethod_def b js_trim_def is_space_def)
  from a b c d e f show ?thesis by simp
qed

subsection \<open>The emitted-name set does not carry over\<close>

text \<open>
  C8.  The text that \<^verbatim>\<open>generateClassDiagram\<close> returns does not depend on the
  content of \<^verbatim>\<open>processedClasses\<close> when the call starts: it is the same after any
  two series of earlier calls, on any descriptors and from any initial content,
  and so the same for two calls on one descriptor.
\<close>

theorem generateClassDiagram_ignores_earlier_calls:
  "fst (generateClassDiagram classInfo (afterCalls earlier processed))
     = fst (generateClassDiagram classInfo (afterCalls earlier' processed'))"
  by (simp add: generateClassDiagram_def)

theorem generateClassDiagram_ignores_earlier_calls_witness:
  "fst (generateClassDiagram classAextendsB (afterCalls [diamond, classAextendsB] {''B''}))
     = fst (generateClassDiagram classAextendsB (afterCalls [] {}))
   \<and> fst (generateClassDiagram classAextendsB {}) =
       ''@startuml\<newline>\<newline>class A {\<newline>}\<newline>\<newline>class B {\<newline>}\<newline>\<newline>B <|-- A\<newline>\<newline>@enduml''"
proof -
  have "fst (generateClassDiagram classAextendsB {}) =
       ''@startuml\<newline>\<newline>class A {\<newline>}\<newline>\<newline>class B {\<newline>}\<newline>\<newline>B <|-- A\<newline>\<newline>@enduml''"
    by (simp add: generateClassDiagram_def classAextendsB_def plainProps_def
        generateClassDefinition_def isSystemPackage_def ownRelationships_def
        getSimpleClassName_def)
  then show ?thesis
    using generateClassDiagram_ignores_earlier_calls
      [of classAextendsB "[diamond, classAextendsB]" "{''B''}" "[]" "{}"]
    by simp
qed

subsection \<open>No name is defined twice\<close>

text \<open>
  The blocks of the definitions pass: what a call adds to the blocks is new to
  the set it started from, free of repetitions, and exactly what it adds to the
  set.
\<close>

lemma interfaceBlocks_new:
  "\<exists>new. interfaceBlocks ifs (blocks, processed) = (blocks @ new, processed \<union> set (map blockName new))
         \<and> distinct (map blockName new) \<and> set (map blockName new) \<inter> processed = {}"
proof (induction ifs arbitrary: blocks processed)
  case Nil
  show ?case by simp
next
  case (Cons i rest)
  show ?case
  proof (cases "getSimpleClassName i \<in> processed")
    case True
    with Cons.IH [of blocks processed] show ?thesis by simp
  next
    case False
    from Cons.IH [of "blocks @ [InterfaceBlock i]" "insert (getSimpleClassName i) processed"]
    obtain new where new:
      "interfaceBlocks rest (blocks @ [InterfaceBlock i], insert (getSimpleClassName i) processed)
         = ((blocks @ [InterfaceBlock i]) @ new,
            insert (getSimpleClassName i) processed \<union> set (map blockName new))"
      "distinct (map blockName new)"
      "set (map blockName new) \<inter> insert (getSimpleClassName i) processed = {}"
      by blast
    show ?thesis
      using False new by (intro exI [of _ "InterfaceBlock i # new"]) auto
  qed
qed

lemma interfaceDefinitions_blocks:
  "interfaceDefinitions ifs (concat (map blockText blocks), processed) =
     (concat (map blockText (fst (interfaceBlocks ifs (blocks, processed)))),
      snd (interfaceBlocks ifs (blocks, processed)))"
proof (induction ifs arbitrary: blocks processed)
  case Nil
  show ?case by simp
next
  case (Cons i rest)
  show ?case
    using Cons.IH [of "blocks @ [InterfaceBlock i]" "insert (getSimpleClassName i) processed"]
      Cons.IH [of blocks processed]
    by simp
qed

lemma definitionBlocks_new:
  "\<exists>new. definitionBlocks classInfo processed = (new, processed \<union> set (map blockName new))
         \<and> distinct (map blockName new) \<and> set (map blockName new) \<inter> processed = {}"
proof (induction classInfo processed rule: definitionBlocks.induct)
  case (1 classInfo processed)
  define own where "own = (if name classInfo \<notin> processed then [ClassBlock classInfo] else [])"
  define ph where "ph = (case extends classInfo of None \<Rightarrow> []
     | Some ext \<Rightarrow> if ext \<noteq> [] \<and> getSimpleClassName ext \<notin> processed \<union> set (map blockName own)
                  then [PlaceholderBlock ext] else [])"
  define ifs where "ifs = (case implements classInfo of None \<Rightarrow> [] | Some xs \<Rightarrow> xs)"
  obtain new where new:
    "interfaceBlocks ifs (own @ ph, processed \<union> set (map blockName (own @ ph)))
       = ((own @ ph) @ new, (processed \<union> set (map blockName (own @ ph))) \<union> set (map blockName new))"
    "distinct (map blockName new)"
    "set (map blockName new) \<inter> (processed \<union> set (map blockName (own @ ph))) = {}"
    using interfaceBlocks_new by blast
  have eq: "definitionBlocks (ClassInfo classInfo None) processed
          = interfaceBlocks ifs (own @ ph, processed \<union> set (map blockName (own @ ph)))"
    by (auto simp: own_def ph_def ifs_def insert_commute split: option.splits)
  have d: "distinct (map blockName (own @ ph))" "set (map blockName (own @ ph)) \<inter> processed = {}"
    by (auto simp: own_def ph_def split: option.splits if_splits)
  show ?case
    unfolding eq new(1) using new(2,3) d
    by (intro exI [of _ "(own @ ph) @ new"]) auto
next
  case (2 classInfo parent processed)
  define own where "own = (if name classInfo \<notin> processed then [ClassBlock classInfo] else [])"
  define ifs where "ifs = (case implements classInfo of None \<Rightarrow> [] | Some xs \<Rightarrow> xs)"
  have p1: "(if name classInfo \<notin> processed
             then ([ClassBlock classInfo], insert (name classInfo) processed)
             else ([], processed)) = (own, processed \<union> set (map blockName own))"
    by (auto simp: own_def)
  from "2.IH" [OF p1 [symmetric] refl]
  obtain newP where newP:
    "definitionBlocks parent (processed \<union> set (map blockName own))
       = (newP, (processed \<union> set (map blockName own)) \<union> set (map blockName newP))"
    "distinct (map blockName newP)"
    "set (map blockName newP) \<inter> (processed \<union> set (map blockName own)) = {}"
    by blast
  obtain new where new:
    "interfaceBlocks ifs (own @ newP, processed \<union> set (map blockName (own @ newP)))
       = ((own @ newP) @ new, (processed \<union> set (map blockName (own @ newP))) \<union> set (map blockName new))"
    "distinct (map blockName new)"
    "set (map blockName new) \<inter> (processed \<union> set (map blockName (own @ newP))) = {}"
    using interfaceBlocks_new by blast
  have eq: "definitionBlocks (ClassInfo classInfo (Some parent)) processed
          = interfaceBlocks ifs (own @ newP, processed \<union> set (map blockName (own @ newP)))"
    using newP(1) by (simp add: p1 ifs_def Un_assoc)
  have d: "distinct (map blockName own)" "set (map blockName own) \<inter> processed = {}"
    by (auto simp: own_def)
  show ?case
    unfolding eq new(1) using new(2,3) newP(2,3) d
    by (intro exI [of _ "(own @ newP) @ new"]) auto
qed

lemma definitions_text:
  "generateAllClassDefinitionsRecursive classInfo processed =
     (concat (map blockText (fst (definitionBlocks classInfo processed))),
      snd (definitionBlocks classInfo processed))"
proof (induction classInfo processed rule: definitionBlocks.induct)
  case (1 classInfo processed)
  define own where "own = (if name classInfo \<notin> processed then [ClassBlock classInfo] else [])"
  define ph where "ph = (case extends classInfo of None \<Rightarrow> []
     | Some ext \<Rightarrow> if ext \<noteq> [] \<and> getSimpleClassName ext \<notin> processed \<union> set (map blockName own)
                  then [PlaceholderBlock ext] else [])"
  define ifs where "ifs = (case implements classInfo of None \<Rightarrow> [] | Some xs \<Rightarrow> xs)"
  have blk: "definitionBlocks (ClassInfo classInfo None) processed
          = interfaceBlocks ifs (own @ ph, processed \<union> set (map blockName (own @ ph)))"
    by (auto simp: own_def ph_def ifs_def insert_commute split: option.splits)
  have str: "generateAllClassDefinitionsRecursive (ClassInfo classInfo None) processed
          = interfaceDefinitions ifs
              (concat (map blockText (own @ ph)), processed \<union> set (map blockName (own @ ph)))"
    by (auto simp: own_def ph_def ifs_def insert_commute split: option.splits)
  show ?case
    unfolding blk str by (rule interfaceDefinitions_blocks)
next
  case (2 classInfo parent processed)
  define own where "own = (if name classInfo \<notin> processed then [ClassBlock classInfo] else [])"
  define ifs where "ifs = (case implements classInfo of None \<Rightarrow> [] | Some xs \<Rightarrow> xs)"
  define processed1 where "processed1 = processed \<union> set (map blockName own)"
  have p1: "(if name classInfo \<notin> processed
             then ([ClassBlock classInfo], insert (name classInfo) processed)
             else ([], processed)) = (own, processed1)"
    by (auto simp: own_def processed1_def)
  have t1: "(if name classInfo \<notin> processed
             then (generateClassDefinition classInfo, insert (name classInfo) processed)
             else ([], processed)) = (concat (map blockText own), processed1)"
    by (auto simp: own_def processed1_def)
  note IH = "2.IH" [OF p1 [symmetric] refl]
  obtain blocksP processed2 where bp: "definitionBlocks parent processed1 = (blocksP, processed2)"
    by (cases "definitionBlocks parent processed1")
  have blk: "definitionBlocks (ClassInfo classInfo (Some parent)) processed
          = interfaceBlocks ifs (own @ blocksP, processed2)"
    by (simp add: p1 bp ifs_def)
  have str: "generateAllClassDefinitionsRecursive (ClassInfo classInfo (Some parent)) processed
          = interfaceDefinitions ifs (concat (map blockText (own @ blocksP)), processed2)"
    using IH by (simp add: t1 bp ifs_def)
  show ?case
    unfolding blk str by (rule interfaceDefinitions_blocks)
qed

lemma blockText_defines_blockName:
  "\<exists>before after. blockText b = before @ ''class '' @ blockName b @ after
                     \<or> blockText b = ''interface '' @ blockName b @ after"
proof (cases b)
  case (ClassBlock classInfo)
  define annos where "annos = (if \<not> isSystemPackage (packageName classInfo)
     then concat (map (\<lambda>a. a @ ''\<newline>'') (annotations classInfo)) else [])"
  define kind where "kind = (if ''abstract'' \<in> set (modifiers classInfo) then ''abstract '' else [])"
  define ifaces where "ifaces = (case implements classInfo of None \<Rightarrow> []
     | Some xs \<Rightarrow> if \<not> isSystemPackage (packageName classInfo) \<and> xs \<noteq> []
                 then '' implements '' @ js_join '', '' xs else [])"
  define body where "body = (if isSystemPackage (packageName classInfo)
     then ''    ..System Class..\<newline>''
     else concat (map generateField (c_fields classInfo))
        @ concat (map generateMethod (methods classInfo)))"
  have "blockText b = (annos @ kind) @ ''class '' @ blockName b
                        @ (ifaces @ '' {\<newline>'' @ body @ ''}\<newline>\<newline>'')"
    by (simp add: ClassBlock generateClassDefinition_def Let_def annos_def kind_def ifaces_def
        body_def)
  then show ?thesis by blast
next
  case (PlaceholderBlock ext)
  then have "\<exists>after. blockText b = [] @ ''class '' @ blockName b @ after"
    by (simp add: placeholderDefinition_def)
  then show ?thesis by blast
next
  case (InterfaceBlock i)
  then have "blockText b = ''interface '' @ blockName b @ '' {\<newline>}\<newline>\<newline>''"
    by simp
  then show ?thesis by blast
qed

text \<open>
  C4.  The definitions part of the diagram is the text of the blocks of the
  definitions pass, started from the cleared set, one after the other; no two of
  these blocks define the same name.  (\<open>blockText_defines_blockName\<close>: the name
  of a block is the name its text defines.)
\<close>

theorem no_type_name_defined_twice:
  "fst (generateClassDiagram classInfo processedBefore) =
     ''@startuml\<newline>\<newline>'' @ concat (map blockText (fst (definitionBlocks classInfo {})))
       @ generateAllRelationshipsRecursive classInfo @ ''\<newline>@enduml''
   \<and> distinct (map blockName (fst (definitionBlocks classInfo {})))"
proof -
  obtain new where "definitionBlocks classInfo {} = (new, {} \<union> set (map blockName new))"
    "distinct (map blockName new)"
    using definitionBlocks_new by blast
  then show ?thesis
    by (simp add: generateClassDiagram_def definitions_text split: prod.splits)
qed

theorem no_type_name_defined_twice_witness:
  "map blockName (fst (definitionBlocks diamond {})) = [''Child'', ''Base'', ''Missing'', ''Runnable'']
   \<and> distinct (map blockName (fst (definitionBlocks diamond {})))
   \<and> concat (map blockText (fst (definitionBlocks diamond {}))) =
       ''class Child implements Runnable {\<newline>}\<newline>\<newline>''
       @ ''class Base implements java.lang.Runnable, Base {\<newline>}\<newline>\<newline>''
       @ ''class Missing {\<newline>}\<newline>\<newline>''
       @ ''interface Runnable {\<newline>}\<newline>\<newline>''"
proof -
  have names: "getSimpleClassName ''Base'' = ''Base''" "getSimpleClassName ''Missing'' = ''Missing''"
    "getSimpleClassName ''Runnable'' = ''Runnable''"
    "getSimpleClassName ''java.lang.Runnable'' = ''Runnable''"
    by (simp_all add: getSimpleClassName_def js_split_def)
  have blocks: "fst (definitionBlocks diamond {}) =
      [ClassBlock ((plainProps ''Child'')\<lparr>extends := Some ''Base'', implements := Some [''Runnable'']\<rparr>),
       ClassBlock ((plainProps ''Base'')\<lparr>extends := Some ''Missing'',
                           implements := Some [''java.lang.Runnable'', ''Base'']\<rparr>),
       PlaceholderBlock ''Missing'', InterfaceBlock ''java.lang.Runnable'']"
    by (simp add: diamond_def plainProps_def names)
  have texts: "concat (map blockText (fst (definitionBlocks diamond {}))) =
       ''class Child implements Runnable {\<newline>}\<newline>\<newline>''
       @ ''class Base implements java.lang.Runnable, Base {\<newline>}\<newline>\<newline>''
       @ ''class Missing {\<newline>}\<newline>\<newline>''
       @ ''interface Runnable {\<newline>}\<newline>\<newline>''"
    by (simp add: blocks plainProps_def names generateClassDefinition_def isSystemPackage_def
        placeholderDefinition_def js_endsWith_def)
  show ?thesis
    using no_type_name_defined_twice [of diamond "{}"] texts
    by (simp add: blocks plainProps_def names)
qed

subsection \<open>The edges of the relationships pass\<close>

lemma relationships_edges:
  "ownRelationships classInfo =
     concat (map (\<lambda>edge. edge @ ''\<newline>'') (inheritanceEdges classInfo @ interfaceEdges classInfo))"
  by (cases "extends classInfo")
     (simp_all add: ownRelationships_def inheritanceEdges_def interfaceEdges_def libraryOrigin_def
        comp_def)

text \<open>
  C7.  The relationships part is made of one line for each edge, the edges of
  the root first, then those of its parent, and so on along the chain; a
  descriptor contributes one inheritance edge when its \<^verbatim>\<open>extends\<close> is set and none
  otherwise, drawn \<^verbatim>\<open><|..\<close> when the supertype's name starts with \<^verbatim>\<open>java.\<close> or
  \<^verbatim>\<open>javax.\<close> and \<^verbatim>\<open><|--\<close> otherwise, and then one \<^verbatim>\<open><|..\<close> edge for each entry of its
  \<^verbatim>\<open>implements\<close>.
\<close>

theorem relationships_one_edge_each:
  "generateAllRelationshipsRecursive classInfo =
     concat (map (\<lambda>edge. edge @ ''\<newline>'')
       (concat (map (\<lambda>d. inheritanceEdges d @ interfaceEdges d) (ancestry classInfo))))
   \<and> inheritanceEdges d =
       (if truthy (extends d)
        then [getSimpleClassName (or_empty (extends d))
              @ (if libraryOrigin (or_empty (extends d)) then '' <|.. '' else '' <|-- '') @ name d]
        else [])
   \<and> length (interfaceEdges d) = length (case implements d of None \<Rightarrow> [] | Some xs \<Rightarrow> xs)
   \<and> (\<forall>k < length (interfaceEdges d).
         interfaceEdges d ! k =
           getSimpleClassName ((case implements d of None \<Rightarrow> [] | Some xs \<Rightarrow> xs) ! k)
             @ '' <|.. '' @ name d)"
proof -
  have "generateAllRelationshipsRecursive classInfo =
     concat (map (\<lambda>edge. edge @ ''\<newline>'')
       (concat (map (\<lambda>d. inheritanceEdges d @ interfaceEdges d) (ancestry classInfo))))"
    by (induction classInfo rule: ancestry.induct) (simp_all add: relationships_edges)
  then show ?thesis
    by (simp add: inheritanceEdges_def interfaceEdges_def)
qed

theorem relationships_one_edge_each_witness:
  "generateAllRelationshipsRecursive classAextendsB = ''B <|-- A\<newline>''
   \<and> inheritanceEdges ((plainProps ''Mine'')\<lparr>extends := Some ''java.lang.Exception''\<rparr>)
       = [''Exception <|.. Mine'']
   \<and> interfaceEdges ((plainProps ''Mine'')\<lparr>implements := Some [''Runnable'', ''java.io.Closeable'']\<rparr>)
       = [''Runnable <|.. Mine'', ''Closeable <|.. Mine'']"
proof -
  have names: "getSimpleClassName ''B'' = ''B''"
    "getSimpleClassName ''java.lang.Exception'' = ''Exception''"
    "getSimpleClassName ''Runnable'' = ''Runnable''"
    "getSimpleClassName ''java.io.Closeable'' = ''Closeable''"
    by (simp_all add: getSimpleClassName_def js_split_def)
  have a: "generateAllRelationshipsRecursive classAextendsB = ''B <|-- A\<newline>''"
    using relationships_one_edge_each [of classAextendsB "plainProps ''B''"]
    by (simp add: classAextendsB_def plainProps_def inheritanceEdges_def interfaceEdges_def
        libraryOrigin_def names)
  have b: "inheritanceEdges ((plainProps ''Mine'')\<lparr>extends := Some ''java.lang.Exception''\<rparr>)
       = [''Exception <|.. Mine'']"
    by (simp add: plainProps_def inheritanceEdges_def libraryOrigin_def names)
  have c: "interfaceEdges ((plainProps ''Mine'')\<lparr>implements := Some [''Runnable'', ''java.io.Closeable'']\<rparr>)
       = [''Runnable <|.. Mine'', ''Closeable <|.. Mine'']"
    by (simp add: plainProps_def interfaceEdges_def names)
  from a b c show ?thesis by simp
qed


section \<open>Properties of the parser\<close>

subsection \<open>Auxiliary facts\<close>




lemmas walkParents_induct = walkParents.raw_induct [rotated 1, consumes 1, case_names step]

lemmas parse_induct = parse.raw_induct [rotated 1, consumes 1, case_names step]

text \<open>The walk depends on the collaborators through \<^verbatim>\<open>javap\<close> only.\<close>

lemma walkParents_cong_Some:
  assumes "walkParents w currentClass className = Some r" and "javap w' = javap w"
  shows "walkParents w' currentClass className = Some r"
  using assms
proof (induction w currentClass className r rule: walkParents_induct)
  case (step walk w currentClass className r)
  show ?case
  proof (cases "className \<noteq> [] \<and> className \<noteq> ''java.lang.Object''")
    case False
    with step.hyps show ?thesis by (subst walkParents.simps) auto
  next
    case True
    show ?thesis
    proof (cases "javap w className")
      case (Inl e)
      with True step.hyps step.prems show ?thesis by (subst walkParents.simps) auto
    next
      case (Inr stdout)
      with True step.hyps obtain parent' calls where
        inner: "walk w (ClassInfo (parseJavapOutput stdout className) None)
                  (or_empty (extends (parseJavapOutput stdout className))) = Some (parent', calls)"
        and r: "r = (ClassInfo (props currentClass) (Some parent'), className # calls)"
        by (auto simp: bind_eq_Some_conv)
      from step.IH [OF inner step.prems] True Inr step.prems r show ?thesis
        by (subst walkParents.simps) auto
    qed
  qed
qed

lemma walkParents_cong:
  assumes "javap w' = javap w"
  shows "walkParents w' currentClass className = walkParents w currentClass className"
proof (cases "walkParents w currentClass className")
  case (Some r)
  then show ?thesis using walkParents_cong_Some [OF _ assms] by simp
next
  case None
  show ?thesis
  proof (cases "walkParents w' currentClass className")
    case None
    with \<open>walkParents w currentClass className = None\<close> show ?thesis by simp
  next
    case (Some r)
    from walkParents_cong_Some [OF Some assms [symmetric]] None show ?thesis by simp
  qed
qed

lemma tryCommonPackages_cong:
  "javap w' = javap w \<Longrightarrow>
   tryCommonPackages w' classInfo simple pkgs = tryCommonPackages w classInfo simple pkgs"
  by (induction pkgs) (auto simp: Let_def split: sum.splits)

lemma systemAncestors_cong:
  assumes "javap w' = javap w"
  shows "systemAncestors w' classInfo = systemAncestors w classInfo"
proof -
  have "resolveSystemClass w' classInfo = resolveSystemClass w classInfo"
    by (simp add: resolveSystemClass_def assms tryCommonPackages_cong [OF assms] Let_def
        cong: sum.case_cong if_cong)
  then show ?thesis
    by (simp add: systemAncestors_def walkParents_cong [OF assms]
        cong: option.case_cong if_cong prod.case_cong)
qed

lemma parse_no_path:
  "parse w javaCode None =
     (case parseClass w javaCode of
        Inl e \<Rightarrow> Some (Inl e)
      | Inr classInfo \<Rightarrow>
          if truthy (extends (props classInfo))
          then map_option Inr (systemAncestors w classInfo)
          else Some (Inr classInfo))"
  by (subst parse.simps) (simp add: findProjectClass_def withFilePath_def split: sum.splits)


subsection \<open>Without a file path\<close>

text \<open>
  C10.  Without a current file path \<^verbatim>\<open>findProjectClass\<close> returns \<^verbatim>\<open>undefined\<close>;
  \<^verbatim>\<open>parse\<close> called without a file path hands a descriptor whose \<^verbatim>\<open>extends\<close> is
  set straight to the system fallback, and its result is the same whatever the
  file system holds: no sibling file is looked up.
\<close>

theorem parse_without_file_path:
  "findProjectClass w className pkg None = None
   \<and> parse w javaCode None =
       (case parseClass w javaCode of
          Inl e \<Rightarrow> Some (Inl e)
        | Inr classInfo \<Rightarrow>
            if truthy (extends (props classInfo))
            then map_option Inr (systemAncestors w classInfo)
            else Some (Inr classInfo))
   \<and> parse (w\<lparr>existsSync := anyExists, readFileSync := anyRead\<rparr>) javaCode None
       = parse w javaCode None"
proof -
  have "javap (w\<lparr>existsSync := anyExists, readFileSync := anyRead\<rparr>) = javap w"
    by (simp add: javap_def fun_eq_iff)
  then have "systemAncestors (w\<lparr>existsSync := anyExists, readFileSync := anyRead\<rparr>) c
               = systemAncestors w c" for c
    by (rule systemAncestors_cong)
  moreover have "parseClass (w\<lparr>existsSync := anyExists, readFileSync := anyRead\<rparr>) javaCode
                   = parseClass w javaCode"
    by (simp add: parseClass_def)
  ultimately show ?thesis
    by (simp add: parse_no_path findProjectClass_def cong: sum.case_cong if_cong)
qed

theorem parse_without_file_path_witness:
  "parse (libraryWorld\<lparr>existsSync := (\<lambda>p. True), readFileSync := (\<lambda>p. Inr ''class Exception {}'')\<rparr>)
     ''class Mine extends Exception {}'' None
   = Some (Inr (ClassInfo ((props mine)\<lparr>extends := Some ''java.lang.Exception''\<rparr>)
                  (Some (ClassInfo exceptionProps None))))"
proof -
  have "parse libraryWorld ''class Mine extends Exception {}'' None
   = Some (Inr (ClassInfo ((props mine)\<lparr>extends := Some ''java.lang.Exception''\<rparr>)
                  (Some (ClassInfo exceptionProps None))))"
    unfolding mine_def plainProps_def exceptionProps_def by code_simp
  with parse_without_file_path [where w = libraryWorld
      and javaCode = "''class Mine extends Exception {}''"
      and anyExists = "\<lambda>p. True" and anyRead = "\<lambda>p. Inr ''class Exception {}''"]
  show ?thesis by simp
qed

subsection \<open>The fallback\<close>





lemma tryCommonPackages_props:
  "tryCommonPackages w classInfo simple pkgs = (classInfo', tried, found) \<Longrightarrow>
   (props classInfo')\<lparr>extends := x\<rparr> = (props classInfo)\<lparr>extends := x\<rparr>"
proof (induction pkgs arbitrary: classInfo' tried found)
  case Nil
  then show ?case by simp
next
  case (Cons pkg pkgs)
  then show ?case
    by (auto simp: Let_def split: sum.splits prod.splits if_splits)
qed

lemma resolveSystemClass_props:
  assumes "resolveSystemClass w classInfo = (classInfo', tried, found)"
  shows "(props classInfo')\<lparr>extends := x\<rparr> = (props classInfo)\<lparr>extends := x\<rparr>"
  using assms
  by (auto simp: resolveSystemClass_def Let_def dest: tryCommonPackages_props [where x = x]
           split: sum.splits prod.splits if_splits)



lemma parseClass_mine: "parseClass libraryWorld javaCode = Inr mine"
  by (simp add: parseClass_def libraryWorld_def parsedClass_def mine_def plainProps_def)

lemma javap_libraryWorld:
  "javap libraryWorld className =
     (if className = ''java.lang.Exception''
      then Inr ''public class java.lang.Exception extends java.lang.Throwable {\<newline>  public java.lang.Exception();\<newline>}''
      else notFound)"
  by (simp add: javap_def libraryWorld_def commandTable_def)

lemma parseJavapOutput_Exception:
  "parseJavapOutput ''public class java.lang.Exception extends java.lang.Throwable {\<newline>  public java.lang.Exception();\<newline>}''
     ''java.lang.Exception'' = exceptionProps"
  unfolding exceptionProps_def by code_simp

lemma resolveSystemClass_mine:
  "resolveSystemClass libraryWorld mine =
     (ClassInfo ((props mine)\<lparr>extends := Some ''java.lang.Exception''\<rparr>)
        (Some (ClassInfo exceptionProps None)),
      [''Exception'', ''java.lang.Exception''], True)"
proof -
  have "simpleClassNameOf (Some ''Exception'') = ''Exception''"
    by (simp add: simpleClassNameOf_def)
  then show ?thesis
    by (simp add: resolveSystemClass_def mine_def plainProps_def commonPackages_def
        javap_libraryWorld notFound_def parseJavapOutput_Exception Let_def)
qed







lemma parse_mine:
  "parse libraryWorld ''class Mine extends Exception {}'' (Some ''/project/Mine.java'') =
     Some (Inr (ClassInfo
       ((props mine)\<lparr>extends := Some ''java.lang.Exception'',
                      filePath := Some ''/project/Mine.java''\<rparr>)
       (Some (ClassInfo exceptionProps None))))"
  unfolding mine_def plainProps_def exceptionProps_def by code_simp





text \<open>
  The two other branches: the special case for \<^verbatim>\<open>Applet\<close>, and the direct attempt
  on a name with a package (which makes no assignment to \<^verbatim>\<open>extends\<close>).  In both,
  \<^verbatim>\<open>javap\<close> fails on the next supertype and the chain ends there.
\<close>

lemma other_branches_examples:
  "map_option (map_sum id (\<lambda>c. (extends (props c), map name (ancestry c))))
     (parse guiWorld ''class Game extends Applet {}'' None)
   = Some (Inr (Some ''java.applet.Applet'', [''Game'', ''Applet'']))"
  "fst (snd (resolveSystemClass guiWorld
              (ClassInfo ((plainProps ''Game'')\<lparr>extends := Some ''Applet''\<rparr>) None)))
   = [''java.applet.Applet'']"
  "map_option (map_sum id (\<lambda>c. (extends (props c), map name (ancestry c))))
     (parse guiWorld ''class Window extends javax.swing.JFrame {}'' None)
   = Some (Inr (Some ''javax.swing.JFrame'', [''Window'', ''JFrame'']))"
  "fst (snd (resolveSystemClass guiWorld
              (ClassInfo ((plainProps ''Window'')\<lparr>extends := Some ''javax.swing.JFrame''\<rparr>) None)))
   = [''javax.swing.JFrame'']"
  unfolding plainProps_def by code_simp+

subsection \<open>Constructor lines\<close>

text \<open>
  What holds of every line: the parameters carry no names, and their types are
  the trimmed pieces between the commas, in the order of the text.
\<close>

lemma parseParameters_names_types:
  "map p_name (parseParameters paramString)
     = map (\<lambda>piece. []) (if js_trim paramString = [] then [] else js_split paramString '','')
   \<and> map p_type (parseParameters paramString)
     = (if js_trim paramString = [] then [] else map js_trim (js_split paramString '',''))"
  by (simp add: parseParameters_def comp_def)

lemma parseJavapMethod_parameters:
  "parameters (parseJavapMethod line) = []
   \<or> (\<exists>paramString. paramStringOf line = Some paramString
         \<and> parameters (parseJavapMethod line) = parseParameters paramString)"
  by (auto simp: parseJavapMethod_def emptyMethod_def Let_def split: prod.splits option.splits)

lemma parseJavapMethod_parameter_names:
  "p \<in> set (parameters (parseJavapMethod line)) \<Longrightarrow> p_name p = []"
  using parseJavapMethod_parameters [of line]
  by (auto simp: parseParameters_def split: if_splits)

text \<open>
  C6 (not met by the code).  The constructor of \<^verbatim>\<open>com.acme.Base\<close> as \<^verbatim>\<open>javap\<close> prints
  it: \<^verbatim>\<open>extractClassName\<close> yields \<^verbatim>\<open>String,\<close> (the end of the first word with a
  dot), the line does not contain \<^verbatim>\<open>String,(\<close>, and the line is parsed as a
  regular method: its return type is \<^verbatim>\<open>public\<close>, its name the qualified class
  name and its modifiers are lost.  The disassembly of the class gives the same
  method descriptor.
\<close>

theorem constructor_line_parsed_as_method:
  "extractClassName ''public com.acme.Base(java.lang.String, int);'' = ''String,''
   \<and> parseJavapMethod ''public com.acme.Base(java.lang.String, int);'' =
       \<lparr>m_name = ''com.acme.Base'', returnType = ''public'',
        parameters = [\<lparr>p_name = [], p_type = ''java.lang.String''\<rparr>,
                      \<lparr>p_name = [], p_type = ''int''\<rparr>],
        m_modifiers = [], m_annotations = []\<rparr>
   \<and> methods (parseJavapOutput baseDisassembly ''com.acme.Base'') =
       [\<lparr>m_name = ''com.acme.Base'', returnType = ''public'',
         parameters = [\<lparr>p_name = [], p_type = ''java.lang.String''\<rparr>,
                       \<lparr>p_name = [], p_type = ''int''\<rparr>],
         m_modifiers = [], m_annotations = []\<rparr>]"
  unfolding baseDisassembly_def by code_simp

text \<open>
  The example in the comment of \<^verbatim>\<open>parseJavapMethod\<close> itself, and a constructor
  without parameters behind three modifiers.
\<close>

lemma constructor_examples:
  "returnType (parseJavapMethod ''public java.lang.Exception(java.lang.String);'') = ''public''"
  "m_name (parseJavapMethod ''public java.lang.Exception(java.lang.String);'')
     = ''java.lang.Exception''"
  "returnType (parseJavapMethod ''public static final com.acme.Base();'') = ''final''"
  by code_simp+

subsection \<open>The length of the walk\<close>

text \<open>
  The helper \<^verbatim>\<open>parseSystemClassWithParents\<close> does have a depth limit: whatever the
  collaborators answer, it calls \<^verbatim>\<open>javap\<close> at most eleven times (depths 0 to 10).
\<close>

lemma helper_depth_bound:
  "length (snd (parseSystemClassWithParents w fullClassName classInfo depth)) \<le> 11 - depth"
proof (induction w fullClassName classInfo depth rule: parseSystemClassWithParents.induct)
  case (1 w fullClassName classInfo depth)
  show ?case
  proof (cases "depth > 10")
    case True
    then show ?thesis by simp
  next
    case False
    show ?thesis
    proof (cases "javap w fullClassName")
      case (Inl e)
      with False show ?thesis by simp
    next
      case (Inr stdout)
      from "1.IH" [OF False Inr refl refl] False Inr show ?thesis
        by (subst parseSystemClassWithParents.simps)
           (auto simp: Let_def split: prod.splits simp del: parseSystemClassWithParents.simps)
    qed
  qed
qed

text \<open>
  The loop of \<^verbatim>\<open>parse\<close> has none.  When a disassembly names the class itself as
  its supertype, the loop never ends.
\<close>

lemma walk_never_ends_on_self_reference:
  "walkParents loopWorld currentClass ''p.Loop'' = None"
proof (cases "walkParents loopWorld currentClass ''p.Loop''")
  case None
  then show ?thesis .
next
  case (Some r)
  have out: "javap loopWorld ''p.Loop'' = Inr ''public class p.Loop extends p.Loop {\<newline>}''"
    by (simp add: javap_def loopWorld_def commandTable_def)
  have ext: "extends (parseJavapOutput ''public class p.Loop extends p.Loop {\<newline>}'' ''p.Loop'')
               = Some ''p.Loop''"
    by code_simp
  have "walkParents w c n = Some r \<Longrightarrow> w = loopWorld \<Longrightarrow> n = ''p.Loop'' \<Longrightarrow> False" for w c n r
  proof (induction w c n r rule: walkParents_induct)
    case (step walk w c n r)
    from step.hyps step.prems show ?case
      by (auto simp: out ext bind_eq_Some_conv intro: step.IH)
  qed
  with Some show ?thesis by blast
qed

text \<open>
  C1 (not met by the code).  On a class path where \<^verbatim>\<open>C01\<close> to \<^verbatim>\<open>C13\<close> extend one
  another, the fallback for a class extending \<^verbatim>\<open>C01\<close> resolves \<^verbatim>\<open>C01\<close> at once;
  the loop entered for this parent then runs twelve rounds, one call of \<^verbatim>\<open>javap\<close>
  each, and the chain that \<^verbatim>\<open>parse\<close> returns has fourteen descriptors.
\<close>

theorem walk_exceeds_ten_steps:
  "resolveSystemClass deepWorld (ClassInfo ((plainProps ''Leaf'')\<lparr>extends := Some ''C01''\<rparr>) None) =
     (ClassInfo ((plainProps ''Leaf'')\<lparr>extends := Some ''C01''\<rparr>) (Some deepStart), [''C01''], True)
   \<and> map_option snd (walkParents deepWorld deepStart ''C02'') =
       Some [''C02'', ''C03'', ''C04'', ''C05'', ''C06'', ''C07'', ''C08'',
             ''C09'', ''C10'', ''C11'', ''C12'', ''C13'']
   \<and> map_option (length \<circ> snd) (walkParents deepWorld deepStart ''C02'') = Some 12
   \<and> map_option (map_sum id (map name \<circ> ancestry))
         (parse deepWorld ''class Leaf extends C01 {}'' None) =
       Some (Inr [''Leaf'', ''C01'', ''C02'', ''C03'', ''C04'', ''C05'', ''C06'', ''C07'',
                  ''C08'', ''C09'', ''C10'', ''C11'', ''C12'', ''C13''])"
  unfolding deepStart_def plainProps_def by code_simp

subsection \<open>Failures below the root\<close>

text \<open>
  A failed call of \<^verbatim>\<open>javap\<close> in the walk ends the walk and leaves the current class
  without a parent; an exhausted fallback leaves the descriptor as it was.
\<close>

lemma walk_stops_at_failure:
  assumes "javap w className = Inl e" and "className \<noteq> []"
    and "className \<noteq> ''java.lang.Object''"
  shows "walkParents w currentClass className = Some (currentClass, [className])"
  using assms by (subst walkParents.simps) simp

lemma tryCommonPackages_not_found:
  "tryCommonPackages w classInfo simple pkgs = (classInfo', tried, False) \<Longrightarrow> classInfo' = classInfo"
proof (induction pkgs arbitrary: classInfo' tried)
  case Nil
  then show ?case by simp
next
  case (Cons pkg pkgs)
  then show ?case
    by (auto simp: Let_def split: sum.splits prod.splits if_splits)
qed

lemma fallback_exhausted:
  assumes "resolveSystemClass w classInfo = (classInfo', tried, False)"
  shows "classInfo' = classInfo \<and> systemAncestors w classInfo = Some classInfo"
proof -
  from assms have "classInfo' = classInfo"
    by (auto simp: resolveSystemClass_def Let_def dest: tryCommonPackages_not_found
             split: sum.splits prod.splits if_splits)
  with assms show ?thesis by (simp add: systemAncestors_def)
qed

text \<open>
  A sibling file whose own parse is rejected leaves the root without a parent.
\<close>

lemma project_parent_rejected:
  assumes "parseClass w javaCode = Inr parsed"
    and "extends (props parsed) = Some ext" and "ext \<noteq> []"
    and "findProjectClass w ext None filePathArg = Some parentCode" and "parentCode \<noteq> []"
    and "parseClass w parentCode = Inl e"
  shows "parse w javaCode filePathArg = Some (Inr (withFilePath parsed filePathArg))"
proof -
  have found: "findProjectClass w ext pkg filePathArg = Some parentCode" for pkg
    using assms(4) by (simp add: findProjectClass_def)
  have parent: "parse w parentCode anyPath = Some (Inl e)" for anyPath
    using assms(6) by (subst parse.simps) simp
  have "extends (props (withFilePath parsed filePathArg)) = Some ext"
    using assms(2) by (simp add: withFilePath_def)
  with assms(1,3,5) found parent show ?thesis
    by (subst parse.simps) (simp add: Let_def)
qed

text \<open>The walk ends when the links between disassemblies are well-founded.\<close>

lemma walkParents_total:
  assumes "wf (disassemblyLinks w)"
  shows "\<exists>r. walkParents w currentClass className = Some r"
  using assms
proof (induction className arbitrary: currentClass rule: wf_induct_rule)
  case (less className)
  show ?case
  proof (cases "className \<noteq> [] \<and> className \<noteq> ''java.lang.Object''")
    case False
    then show ?thesis by (subst walkParents.simps) auto
  next
    case True
    show ?thesis
    proof (cases "javap w className")
      case (Inl e)
      with True show ?thesis by (subst walkParents.simps) auto
    next
      case (Inr stdout)
      with True have "(or_empty (extends (parseJavapOutput stdout className)), className)
                        \<in> disassemblyLinks w"
        by (auto simp: disassemblyLinks_def)
      from less.IH [OF this] obtain r where
        "walkParents w (ClassInfo (parseJavapOutput stdout className) None)
           (or_empty (extends (parseJavapOutput stdout className))) = Some r"
        by blast
      with True Inr show ?thesis
        by (subst walkParents.simps) (auto split: prod.splits)
    qed
  qed
qed

lemma systemAncestors_total:
  assumes "wf (disassemblyLinks w)"
  shows "\<exists>classInfo'. systemAncestors w classInfo = Some classInfo'
           \<and> (props classInfo')\<lparr>extends := x\<rparr> = (props classInfo)\<lparr>extends := x\<rparr>"
proof -
  obtain c tried found where r: "resolveSystemClass w classInfo = (c, tried, found)"
    by (cases "resolveSystemClass w classInfo") auto
  from resolveSystemClass_props [OF r]
  have p: "(props c)\<lparr>extends := x\<rparr> = (props classInfo)\<lparr>extends := x\<rparr>" .
  show ?thesis
  proof (cases "found \<and> parentClass c \<noteq> None \<and> truthy (extends (props (the (parentClass c))))")
    case False
    with r p show ?thesis by (auto simp: systemAncestors_def split: option.splits)
  next
    case True
    then obtain parent where parent: "parentClass c = Some parent" by auto
    from walkParents_total [OF assms] obtain parent' calls where
      "walkParents w parent (or_empty (extends (props parent))) = Some (parent', calls)"
      by (metis surj_pair)
    with True r p parent show ?thesis by (auto simp: systemAncestors_def)
  qed
qed

text \<open>
  C2 as stated fails: for the file \<^verbatim>\<open>/d/A.java\<close> whose class \<^verbatim>\<open>A\<close> extends a class of
  the same simple name, the root parses, the sibling lookup finds the file
  itself, and \<^verbatim>\<open>parse\<close> calls itself with the same arguments for ever: it returns
  no descriptor.
\<close>

theorem parse_never_returns_on_self_extension:
  "parseClass selfWorld selfCode = Inr selfRoot
   \<and> parse selfWorld selfCode (Some ''/d/A.java'') = None"
proof -
  have root: "parseClass selfWorld javaCode = Inr selfRoot" for javaCode
    by (simp add: parseClass_def selfWorld_def parsedClass_def selfRoot_def plainProps_def)
  have found: "findProjectClass selfWorld ''A'' pkg (Some ''/d/A.java'') = Some selfCode" for pkg
    by (simp add: findProjectClass_def selfWorld_def)
  have path: "path_join selfWorld (path_dirname selfWorld ''/d/A.java'') (''A'' @ ''.java'')
                = ''/d/A.java''"
    by (simp add: selfWorld_def)
  have code: "selfCode \<noteq> []" by (simp add: selfCode_def)
  have ext: "extends (props (withFilePath selfRoot (Some ''/d/A.java''))) = Some ''A''"
    by (simp add: selfRoot_def plainProps_def withFilePath_def)
  have "parse w javaCode filePathArg = Some r \<Longrightarrow>
          w = selfWorld \<Longrightarrow> javaCode = selfCode \<Longrightarrow> filePathArg = Some ''/d/A.java'' \<Longrightarrow> False"
    for w javaCode filePathArg r
  proof (induction w javaCode filePathArg r rule: parse_induct)
    case (step parse' w javaCode filePathArg r)
    from step.hyps step.prems
    obtain r' where "parse' selfWorld selfCode (Some ''/d/A.java'') = Some r'"
      using path by (auto simp: root found code ext Let_def bind_eq_Some_conv)
    then show ?case by (rule step.IH) simp_all
  qed
  then have "parse selfWorld selfCode (Some ''/d/A.java'') = None"
    by (cases "parse selfWorld selfCode (Some ''/d/A.java'')") auto
  with root show ?thesis by simp
qed

text \<open>
  C2, amended.  When the links between sibling files and between disassemblies
  are well-founded, \<^verbatim>\<open>parse\<close> returns: it is rejected with the error of
  \<^verbatim>\<open>parseClass\<close> when the root does not parse, and otherwise it is fulfilled with
  a descriptor that has the properties parsed for the root, up to \<^verbatim>\<open>filePath\<close>
  and the rewritten \<^verbatim>\<open>extends\<close>, whatever fails while the ancestors are resolved.
\<close>

theorem parse_absorbs_ancestor_failures:
  assumes "wf (disassemblyLinks w)" and "wf (projectLinks w)"
  shows "case parseClass w javaCode of
           Inl e \<Rightarrow> parse w javaCode filePathArg = Some (Inl e)
         | Inr parsed \<Rightarrow>
             (\<exists>classInfo. parse w javaCode filePathArg = Some (Inr classInfo)
                \<and> (props classInfo)\<lparr>extends := x, filePath := y\<rparr>
                     = (props parsed)\<lparr>extends := x, filePath := y\<rparr>)"
proof -
  have "case parseClass w (fst call) of
           Inl e \<Rightarrow> parse w (fst call) (snd call) = Some (Inl e)
         | Inr parsed \<Rightarrow>
             (\<exists>classInfo. parse w (fst call) (snd call) = Some (Inr classInfo)
                \<and> (props classInfo)\<lparr>extends := x, filePath := y\<rparr>
                     = (props parsed)\<lparr>extends := x, filePath := y\<rparr>)" for call
    using assms(2)
  proof (induction call rule: wf_induct_rule)
    case (less call)
    obtain javaCode filePathArg where call: "call = (javaCode, filePathArg)" by (cases call)
    show ?case
    proof (cases "parseClass w javaCode")
      case (Inl e)
      then show ?thesis unfolding call by (subst parse.simps) simp
    next
      case (Inr parsed)
      define classInfo where "classInfo = withFilePath parsed filePathArg"
      have props: "(props classInfo)\<lparr>extends := x, filePath := y\<rparr>
                     = (props parsed)\<lparr>extends := x, filePath := y\<rparr>"
        "extends (props classInfo) = extends (props parsed)"
        by (simp_all add: classInfo_def withFilePath_def)
      define ext where "ext = extends (props classInfo)"
      define parentClassCode where "parentClassCode =
         findProjectClass w (or_empty ext) (packageName (props classInfo)) filePathArg"
      have unfold: "parse w javaCode filePathArg =
         (if truthy ext then
            (if truthy parentClassCode then
               Option.bind
                 (parse w (or_empty parentClassCode)
                    (Some (path_join w (path_dirname w (or_empty filePathArg))
                             (or_empty ext @ ''.java''))))
                 (\<lambda>r. case r of
                         Inl e \<Rightarrow> Some (Inr classInfo)
                       | Inr parentClassInfo \<Rightarrow>
                           Some (Inr (ClassInfo (props classInfo) (Some parentClassInfo))))
             else map_option Inr (systemAncestors w classInfo))
          else Some (Inr classInfo))"
        by (subst parse.simps) (simp add: Inr classInfo_def ext_def parentClassCode_def Let_def)
      show ?thesis
      proof (cases "truthy ext")
        case False
        with props Inr show ?thesis unfolding call by (simp add: unfold)
      next
        case True
        show ?thesis
        proof (cases "truthy parentClassCode")
          case False
          from systemAncestors_total [OF assms(1), of classInfo x]
          obtain classInfo' where sa: "systemAncestors w classInfo = Some classInfo'"
            "(props classInfo')\<lparr>extends := x\<rparr> = (props classInfo)\<lparr>extends := x\<rparr>"
            by blast
          have "(props classInfo')\<lparr>extends := x, filePath := y\<rparr>
                  = (props parsed)\<lparr>extends := x, filePath := y\<rparr>"
            using arg_cong [OF sa(2), of "\<lambda>r. r\<lparr>filePath := y\<rparr>"] props(1) by simp
          with True False sa(1) Inr show ?thesis unfolding call
            by (simp add: unfold)
        next
          case found: True
          then obtain parentCode where pc: "parentClassCode = Some parentCode" "parentCode \<noteq> []"
            by (cases parentClassCode) auto
          define parentPath where "parentPath =
             Some (path_join w (path_dirname w (or_empty filePathArg)) (or_empty ext @ ''.java''))"
          have "findProjectClass w (or_empty ext) None filePathArg = parentClassCode"
            by (simp add: parentClassCode_def findProjectClass_def)
          then have "((parentCode, parentPath), call) \<in> projectLinks w"
            unfolding call projectLinks_def
            using Inr True pc props(2)
            by (auto simp: ext_def parentPath_def)
          from less.IH [OF this]
          obtain r where r: "parse w parentCode parentPath = Some r"
            by (auto split: sum.splits)
          have "parse w javaCode filePathArg =
                  (case r of Inl e \<Rightarrow> Some (Inr classInfo)
                   | Inr parentClassInfo \<Rightarrow>
                       Some (Inr (ClassInfo (props classInfo) (Some parentClassInfo))))"
            using True found pc(1) r [unfolded parentPath_def] by (simp add: unfold)
          with props(1) Inr show ?thesis unfolding call
            by (cases r) simp_all
        qed
      qed
    qed
  qed
  from this [of "(javaCode, filePathArg)"] show ?thesis by (simp cong: sum.case_cong)
qed

text \<open>
  In \<open>libraryWorld\<close> no sibling file exists, the first candidate \<^verbatim>\<open>Exception\<close> fails,
  \<^verbatim>\<open>java.lang.Exception\<close> resolves, and \<^verbatim>\<open>javap\<close> fails on its supertype: the chain
  ends with \<^verbatim>\<open>Exception\<close>, which keeps no parent.
\<close>

lemma wf_libraryWorld:
  "wf (disassemblyLinks libraryWorld)" "wf (projectLinks libraryWorld)"
proof -
  have "disassemblyLinks libraryWorld
          \<subseteq> measure (\<lambda>className. if className = ''java.lang.Exception'' then 1 else 0)"
    by (auto simp: disassemblyLinks_def javap_libraryWorld notFound_def
          parseJavapOutput_Exception exceptionProps_def split: if_splits)
  then show "wf (disassemblyLinks libraryWorld)"
    by (rule wf_subset [OF wf_measure])
  have "projectLinks libraryWorld = {}"
    by (auto simp: projectLinks_def findProjectClass_def libraryWorld_def)
  then show "wf (projectLinks libraryWorld)" by simp
qed

theorem parse_absorbs_ancestor_failures_witness:
  "wf (disassemblyLinks libraryWorld) \<and> wf (projectLinks libraryWorld)
   \<and> parseClass libraryWorld ''class Mine extends Exception {}'' = Inr mine
   \<and> parse libraryWorld ''class Mine extends Exception {}'' (Some ''/project/Mine.java'') =
       Some (Inr (ClassInfo
         ((props mine)\<lparr>extends := Some ''java.lang.Exception'',
                        filePath := Some ''/project/Mine.java''\<rparr>)
         (Some (ClassInfo exceptionProps None))))
   \<and> (props mine)\<lparr>extends := None, filePath := None\<rparr> = plainProps ''Mine''"
  using parse_absorbs_ancestor_failures [OF wf_libraryWorld,
      of "''class Mine extends Exception {}''" "Some ''/project/Mine.java''" None None]
  by (simp add: wf_libraryWorld parseClass_mine parse_mine) (simp add: mine_def plainProps_def)

end
